theory Spec2Isabelle
  imports Complex_Main
begin

section \<open>Physical constants and the relativistic wavelength\<close>

text \<open>
  The forward model of \<^verbatim>\<open>electrons/forward.py\<close> over exact real and complex
  arithmetic: a float is a \<open>real\<close>, a complex float a \<open>complex\<close>; rounding is not
  modelled. The constants are the decimal literals of the source.
\<close>

definition m_e :: real where
  "m_e = 9.109383 / 10 ^ 31"

definition e_e :: real where
  "e_e = 1.602177 / 10 ^ 19"

definition c_light :: real where
  "c_light = 299792458.0"

definition h_planck :: real where
  "h_planck = 6.62607 / 10 ^ 34"

text \<open>
  \<^verbatim>\<open>wavelength_ang(voltage_kV)\<close>: \<open>eV\<close>, the numerator \<open>h\<^sup>2 c\<^sup>2\<close>, the denominator
  \<open>eV (2 m c\<^sup>2 + eV)\<close>, the square root of the quotient, and the factor \<open>1e10\<close>.
\<close>

definition wavelength_ang :: "real \<Rightarrow> real" where
  "wavelength_ang voltage_kV =
     (let m = m_e; e = e_e; c = c_light; h = h_planck;
          eV = voltage_kV * 1000.0 * e;
          numerator = h\<^sup>2 * c\<^sup>2;
          denominator = eV * ((2 * m * c\<^sup>2) + eV);
          wavelength_meters = sqrt (numerator / denominator);
          lambda_angstroms = 10 ^ 10 * wavelength_meters
      in lambda_angstroms)"

section \<open>Transmission function\<close>

text \<open>
  \<^verbatim>\<open>transmission_func(pot_slice, voltage_kV)\<close>: the interaction constant \<open>sigma\<close> and
  the elementwise \<^verbatim>\<open>jnp.exp(1j * sigma * pot_slice)\<close>. A two-dimensional array is the
  list of its rows.
\<close>

definition sigma_of :: "real \<Rightarrow> real" where
  "sigma_of voltage_kV =
     (let voltage = voltage_kV * 1000.0;
          eV = e_e * voltage;
          lambda_angstrom = wavelength_ang voltage_kV;
          einstein_energy = m_e * c_light\<^sup>2
      in ((2 * pi / (lambda_angstrom * voltage)) * (einstein_energy + eV))
           / ((2 * einstein_energy) + eV))"

definition transmission_func :: "real list list \<Rightarrow> real \<Rightarrow> complex list list" where
  "transmission_func pot_slice voltage_kV =
     (let sigma = sigma_of voltage_kV
      in map (map (\<lambda>p. exp (\<i> * complex_of_real sigma * complex_of_real p))) pot_slice)"

section \<open>Arrays and the discrete Fourier transform\<close>

text \<open>
  A two-dimensional array \<open>[H, W]\<close> is the list of its \<open>H\<close> rows, a three-dimensional
  array \<open>[H, W, M]\<close> the list of rows of cells, each cell the list of its \<open>M\<close> entries
  along the last axis. An argument annotated \<^verbatim>\<open>"H W *M"\<close> may have either rank;
  \<^verbatim>\<open>jnp.atleast_3d\<close> appends the missing axis. In this representation an array
  with no rows has no columns: the forward model is read on arrays with \<open>H, W \<ge> 1\<close>
  whose rows and cells have equal lengths, and where the coupled arrays of a call agree
  in \<open>H\<close> and \<open>W\<close> (the source checks none of this).
\<close>

type_synonym cmat = "complex list list"

type_synonym ctensor = "complex list list list"

datatype carray = Arr2 cmat | Arr3 ctensor

definition atleast_3d :: "carray \<Rightarrow> ctensor" where
  "atleast_3d a = (case a of Arr2 m \<Rightarrow> map (map (\<lambda>z. [z])) m | Arr3 t \<Rightarrow> t)"

definition dim0 :: "'a list \<Rightarrow> nat" where
  "dim0 a = length a"

definition dim1 :: "'a list list \<Rightarrow> nat" where
  "dim1 a = (case a of [] \<Rightarrow> 0 | r # _ \<Rightarrow> length r)"

definition dim2 :: "'a list list list \<Rightarrow> nat" where
  "dim2 a = (case a of [] \<Rightarrow> 0 | r # _ \<Rightarrow> (case r of [] \<Rightarrow> 0 | c # _ \<Rightarrow> length c))"

text \<open>
  The shape predicate of a well-formed three-dimensional array.
\<close>

definition has_shape :: "nat \<Rightarrow> nat \<Rightarrow> nat \<Rightarrow> 'a list list list \<Rightarrow> bool" where
  "has_shape H W M a =
     (length a = H \<and> list_all (\<lambda>r. length r = W \<and> list_all (\<lambda>c. length c = M) r) a)"

text \<open>
  \<^verbatim>\<open>jnp.fft.fft2\<close> and \<^verbatim>\<open>jnp.fft.ifft2\<close> over the axes \<open>(0, 1)\<close>, by their defining
  sums: \<open>A[k, l] = \<Sum>\<^sub>y \<Sum>\<^sub>x a[y, x] exp(\<mp>2\<pi>i (y k / H + x l / W))\<close>, the inverse
  divided by \<open>H W\<close>. \<open>dft2_sum s\<close> is the double sum with sign \<open>s\<close>.
\<close>

definition dft2_sum ::
  "real \<Rightarrow> nat \<Rightarrow> nat \<Rightarrow> (nat \<Rightarrow> nat \<Rightarrow> complex) \<Rightarrow> nat \<Rightarrow> nat \<Rightarrow> complex" where
  "dft2_sum s H W f k l =
     (\<Sum>y\<leftarrow>[0..<H]. \<Sum>x\<leftarrow>[0..<W].
        f y x * cis (s * (2 * pi * (real (y * k) / real H + real (x * l) / real W))))"

definition fft2 :: "ctensor \<Rightarrow> ctensor" where
  "fft2 a =
     (let H = dim0 a; W = dim1 a; M = dim2 a
      in map (\<lambda>k. map (\<lambda>l. map (\<lambda>m.
           dft2_sum (-1) H W (\<lambda>y x. a ! y ! x ! m) k l) [0..<M]) [0..<W]) [0..<H])"

definition ifft2 :: "ctensor \<Rightarrow> ctensor" where
  "ifft2 a =
     (let H = dim0 a; W = dim1 a; M = dim2 a
      in map (\<lambda>k. map (\<lambda>l. map (\<lambda>m.
           dft2_sum 1 H W (\<lambda>y x. a ! y ! x ! m) k l / of_nat (H * W)) [0..<M]) [0..<W]) [0..<H])"

text \<open>\<^verbatim>\<open>jnp.fft.ifft2\<close> of a two-dimensional array.\<close>

definition ifft2_mat :: "cmat \<Rightarrow> cmat" where
  "ifft2_mat a =
     (let H = dim0 a; W = dim1 a
      in map (\<lambda>k. map (\<lambda>l.
           dft2_sum 1 H W (\<lambda>y x. a ! y ! x) k l / of_nat (H * W)) [0..<W]) [0..<H])"

text \<open>
  \<^verbatim>\<open>jnp.fft.fftfreq(n, d)\<close>: the frequencies \<open>0, 1, \<dots>, (n-1) div 2, -(n div 2), \<dots>, -1\<close>
  times \<open>1 / (n d)\<close>. \<^verbatim>\<open>jnp.fft.fftshift\<close> rolls an axis by \<open>n div 2\<close>.
\<close>

definition fftfreq :: "nat \<Rightarrow> real \<Rightarrow> real list" where
  "fftfreq n d =
     (let val = 1 / (real n * d); N = (n - 1) div 2 + 1
      in map (\<lambda>i. (if i < N then real i else real i - real n) * val) [0..<n])"

definition fftshift1 :: "'a list \<Rightarrow> 'a list" where
  "fftshift1 xs = (let n = length xs; k = n - n div 2 in drop k xs @ take k xs)"

definition fftshift :: "'a list list \<Rightarrow> 'a list list" where
  "fftshift a = fftshift1 (map fftshift1 a)"

text \<open>
  The product \<^verbatim>\<open>w * k[..., jnp.newaxis]\<close> of a field \<open>[H, W, M]\<close> with a
  two-dimensional factor \<open>[H, W]\<close>, broadcast along the last axis.
\<close>

definition mul_broadcast :: "ctensor \<Rightarrow> cmat \<Rightarrow> ctensor" where
  "mul_broadcast w k = map2 (\<lambda>wrow krow. map2 (\<lambda>cell t. map (\<lambda>z. z * t) cell) wrow krow) w k"

section \<open>Propagation function\<close>

text \<open>
  \<^verbatim>\<open>propagation_func\<close>: the Fresnel kernel \<open>exp(-i \<pi> \<lambda> t (qx\<^sup>2 + qy\<^sup>2))\<close> on the
  \<^verbatim>\<open>meshgrid(qy, qx, indexing="ij")\<close> of the FFT frequencies.
\<close>

definition propagation_func :: "nat \<Rightarrow> nat \<Rightarrow> real \<Rightarrow> real \<Rightarrow> real \<Rightarrow> cmat" where
  "propagation_func imsize_y imsize_x thickness_ang voltage_kV calib_ang =
     (let qy = fftfreq imsize_y calib_ang;
          qx = fftfreq imsize_x calib_ang;
          lambda_angstrom = wavelength_ang voltage_kV
      in map (\<lambda>Lya. map (\<lambda>Lxa.
           exp ((- \<i>) * complex_of_real pi * complex_of_real lambda_angstrom
                * complex_of_real thickness_ang * complex_of_real (Lxa\<^sup>2 + Lya\<^sup>2))) qx) qy)"

section \<open>The multislice CBED engine\<close>

text \<open>
  \<^verbatim>\<open>cbed\<close>. The scan body takes slice \<open>slice_idx\<close> of \<^verbatim>\<open>pot_slice\<close> along the last
  axis and multiplies the wave by it as it is; the propagator (named
  \<^verbatim>\<open>slice_transmission\<close> in the source) is applied after every slice but the last.
\<close>

definition take_slice :: "ctensor \<Rightarrow> nat \<Rightarrow> cmat" where
  "take_slice pot slice_idx = map (map (\<lambda>cell. cell ! slice_idx)) pot"

definition propagate :: "cmat \<Rightarrow> ctensor \<Rightarrow> ctensor" where
  "propagate slice_transmission w =
     (let w_k = fft2 w;
          w_k' = mul_broadcast w_k slice_transmission
      in ifft2 w_k')"

definition scan_fn :: "ctensor \<Rightarrow> cmat \<Rightarrow> nat \<Rightarrow> nat \<Rightarrow> ctensor \<Rightarrow> ctensor" where
  "scan_fn pot slice_transmission num_slices slice_idx carry =
     (let wave = carry;
          trans_slice = take_slice pot slice_idx;
          wave' = mul_broadcast wave trans_slice;
          is_last_slice = (int slice_idx = int num_slices - 1)
      in if is_last_slice then wave' else propagate slice_transmission wave')"

definition intensity :: "ctensor \<Rightarrow> real list list" where
  "intensity pattern = map (map (\<lambda>cell. sum_list (map (\<lambda>z. (cmod z)\<^sup>2) cell))) pattern"

definition cbed :: "carray \<Rightarrow> carray \<Rightarrow> real \<Rightarrow> real \<Rightarrow> real \<Rightarrow> real list list" where
  "cbed pot_slice beam slice_thickness voltage_kV calib_ang =
     (let pot = atleast_3d pot_slice;
          beam3 = atleast_3d beam;
          num_slices = dim2 pot;
          slice_transmission =
            propagation_func (dim0 beam3) (dim1 beam3) slice_thickness voltage_kV calib_ang;
          init_wave = beam3;
          final_wave = fold (scan_fn pot slice_transmission num_slices) [0..<num_slices] init_wave;
          fourier_space_pattern = fftshift (fft2 final_wave)
      in intensity fourier_space_pattern)"

text \<open>
  The Fraunhofer diffraction pattern of a probe, in the words of the specification: the
  squared magnitude of the centred two-dimensional Fourier transform of the beam, summed
  over the modes.
\<close>

definition fraunhofer :: "carray \<Rightarrow> real list list" where
  "fraunhofer beam = intensity (fftshift (fft2 (atleast_3d beam)))"

section \<open>Beam shifting and the 4D-STEM simulator\<close>

text \<open>
  \<^verbatim>\<open>shift_beam_fourier\<close>: positions are the rows \<open>(y, x)\<close> of a \<open>[P, 2]\<close> array.
  \<^verbatim>\<open>jax.vmap(apply_shift)(jnp.arange(num_positions))\<close> is the map over the indices.
\<close>

definition apply_shift ::
  "ctensor \<Rightarrow> real list \<Rightarrow> real list \<Rightarrow> (real \<times> real) list \<Rightarrow> nat \<Rightarrow> ctensor" where
  "apply_shift beam_k qy qx pos position_idx =
     (let y_shift = fst (pos ! position_idx);
          x_shift = snd (pos ! position_idx);
          phase_shift = map (\<lambda>qya. map (\<lambda>qxa.
             exp (\<i> * complex_of_real (- 2.0 * pi * ((qya * y_shift) + (qxa * x_shift))))) qx) qy;
          shifted_beam_k = mul_broadcast beam_k phase_shift
      in ifft2 shifted_beam_k)"

definition shift_beam_fourier :: "carray \<Rightarrow> (real \<times> real) list \<Rightarrow> real \<Rightarrow> ctensor list" where
  "shift_beam_fourier beam pos calib_ang =
     (let our_beam = atleast_3d beam;
          H = dim0 our_beam;
          W = dim1 our_beam;
          num_positions = length pos;
          qy = fftfreq H calib_ang;
          qx = fftfreq W calib_ang;
          beam_k = fft2 our_beam
      in map (apply_shift beam_k qy qx pos) [0..<num_positions])"

definition stem_4D ::
  "ctensor \<Rightarrow> ctensor \<Rightarrow> (real \<times> real) list \<Rightarrow> real \<Rightarrow> real \<Rightarrow> real \<Rightarrow> real list list list" where
  "stem_4D pot_slice beam positions slice_thickness voltage_kV calib_ang =
     (let shifted_beams = shift_beam_fourier (Arr3 beam) positions calib_ang
      in map (\<lambda>pos_idx.
           let current_beam = shifted_beams ! pos_idx
           in cbed (Arr3 pot_slice) (Arr3 current_beam) slice_thickness voltage_kV calib_ang)
         [0..<length positions])"

section \<open>Loss functions\<close>

text \<open>
  \<^verbatim>\<open>tools/loss_functions.py\<close>. An exception of the source is a value of \<open>error\<close>; a
  function that can raise returns \<open>error + 'a\<close>, with \<open>Inl\<close> for the exception.
  \<^verbatim>\<open>loss_functions[loss_type]\<close> raises \<^verbatim>\<open>KeyError\<close> on a key that is not in the
  dictionary. The parameters of the returned loss function are one tuple \<open>'p\<close>.
\<close>

datatype error =
    ValueError string
  | KeyError string
  | TypeError string
  | IndexError string
  | ZeroDivisionError string
  | NameError string
  | AttributeError string

definition mean3 :: "real list list list \<Rightarrow> real" where
  "mean3 a = (let xs = concat (concat a) in sum_list xs / real (length xs))"

definition mae_loss :: "real list list list \<Rightarrow> real" where
  "mae_loss diff = mean3 (map (map (map abs)) diff)"

definition mse_loss :: "real list list list \<Rightarrow> real" where
  "mse_loss diff = mean3 (map (map (map (\<lambda>d. d\<^sup>2))) diff)"

definition rmse_loss :: "real list list list \<Rightarrow> real" where
  "rmse_loss diff = sqrt (mean3 (map (map (map (\<lambda>d. d\<^sup>2))) diff))"

definition loss_functions :: "(string \<times> (real list list list \<Rightarrow> real)) list" where
  "loss_functions = [(''mae'', mae_loss), (''mse'', mse_loss), (''rmse'', rmse_loss)]"

definition subtract3 :: "real list list list \<Rightarrow> real list list list \<Rightarrow> real list list list" where
  "subtract3 a b = map2 (map2 (map2 (\<lambda>u v. u - v))) a b"

definition create_loss_function ::
  "('p \<Rightarrow> real list list list) \<Rightarrow> real list list list \<Rightarrow> string \<Rightarrow> error + ('p \<Rightarrow> real)" where
  "create_loss_function forward_function experimental_data loss_type =
     (case map_of loss_functions loss_type of
        None \<Rightarrow> Inl (KeyError loss_type)
      | Some selected_loss_fn \<Rightarrow>
          Inr (\<lambda>params.
            let model_output = forward_function params;
                diff = subtract3 model_output experimental_data
            in selected_loss_fn diff))"

section \<open>Containers, optimizers and what the reconstruction takes from outside\<close>

text \<open>
  Modelled from the spec: the container \<^verbatim>\<open>pte.CalibratedArray\<close>, whose declaration is
  not among the sources: a two-dimensional array, the pixel calibrations in \<open>y\<close> and
  \<open>x\<close>, and the flag that tells real space from Fourier space.
\<close>

record CalibratedArray =
  data_array :: cmat
  calib_y :: real
  calib_x :: real
  real_space :: bool

text \<open>
  A learning rate is a float or a float array. \<open>Scalar r\<close> is the array of rank 0 that
  \<^verbatim>\<open>jnp.array\<close> makes of a float, \<open>Nested\<close> an array of rank one more than its
  elements. \<^verbatim>\<open>len\<close> of an array of rank 0 raises \<^verbatim>\<open>TypeError\<close>.
\<close>

datatype farray = Scalar real | Nested "farray list"

definition len_farray :: "farray \<Rightarrow> error + nat" where
  "len_farray a =
     (case a of
        Scalar _ \<Rightarrow> Inl (TypeError ''len() of unsized object'')
      | Nested xs \<Rightarrow> Inr (length xs))"

definition index_farray :: "farray \<Rightarrow> nat \<Rightarrow> error + farray" where
  "index_farray a i =
     (case a of
        Scalar _ \<Rightarrow> Inl (IndexError ''too many indices for array'')
      | Nested xs \<Rightarrow>
          if i < length xs then Inr (xs ! i) else Inl (IndexError ''index out of bounds''))"

text \<open>
  Modelled from the spec: \<^verbatim>\<open>ptt.Optimizer\<close>, the pair of an \<open>init\<close> from a shape to
  an optimizer state and an \<open>update\<close> from parameters, gradient, state and learning rate
  to new parameters and a new state. The arrays an optimizer works on are written as
  complex matrices; the dtype of an array is not modelled, and a real array (the
  position list) is a matrix whose entries have imaginary part 0.
\<close>

record 's Optimizer =
  init :: "nat list \<Rightarrow> 's"
  update :: "cmat \<Rightarrow> cmat \<Rightarrow> 's \<Rightarrow> farray \<Rightarrow> cmat \<times> 's"

text \<open>
  What the module imports and the sources do not hold is a parameter of the model: the
  three update rules of \<^verbatim>\<open>ptyrodactyl.tools\<close>, and \<^verbatim>\<open>jax.value_and_grad\<close> for the
  loss of two and of three arguments (\<^verbatim>\<open>argnums=(0, 1)\<close> and \<^verbatim>\<open>(0, 1, 2)\<close>).
\<close>

record 's externals =
  init_adam :: "nat list \<Rightarrow> 's"
  adam_update :: "cmat \<Rightarrow> cmat \<Rightarrow> 's \<Rightarrow> farray \<Rightarrow> cmat \<times> 's"
  init_adagrad :: "nat list \<Rightarrow> 's"
  adagrad_update :: "cmat \<Rightarrow> cmat \<Rightarrow> 's \<Rightarrow> farray \<Rightarrow> cmat \<times> 's"
  init_rmsprop :: "nat list \<Rightarrow> 's"
  rmsprop_update :: "cmat \<Rightarrow> cmat \<Rightarrow> 's \<Rightarrow> farray \<Rightarrow> cmat \<times> 's"
  value_and_grad2 :: "(cmat \<Rightarrow> cmat \<Rightarrow> real) \<Rightarrow> cmat \<Rightarrow> cmat \<Rightarrow> real \<times> (cmat \<times> cmat)"
  value_and_grad3 ::
    "(cmat \<Rightarrow> cmat \<Rightarrow> cmat \<Rightarrow> real) \<Rightarrow> cmat \<Rightarrow> cmat \<Rightarrow> cmat \<Rightarrow> real \<times> (cmat \<times> cmat \<times> cmat)"

section \<open>The optimizer registry\<close>

definition OPTIMIZERS :: "'s externals \<Rightarrow> (string \<times> 's Optimizer) list" where
  "OPTIMIZERS ptt =
     [(''adam'', \<lparr>init = init_adam ptt, update = adam_update ptt\<rparr>),
      (''adagrad'', \<lparr>init = init_adagrad ptt, update = adagrad_update ptt\<rparr>),
      (''rmsprop'', \<lparr>init = init_rmsprop ptt, update = rmsprop_update ptt\<rparr>)]"

definition get_optimizer :: "'s externals \<Rightarrow> string \<Rightarrow> error + 's Optimizer" where
  "get_optimizer ptt optimizer_name =
     (case map_of (OPTIMIZERS ptt) optimizer_name of
        None \<Rightarrow> Inl (ValueError (''Unknown optimizer: '' @ optimizer_name))
      | Some optimizer \<Rightarrow> Inr optimizer)"

section \<open>The reconstruction loops\<close>

text \<open>
  \<^verbatim>\<open>electrons/inverse.py\<close>. Iteration counts are Python integers, here natural
  numbers. \<^verbatim>\<open>a / b\<close> of two of them is the true division: a float, and
  \<^verbatim>\<open>ZeroDivisionError\<close> for \<open>b = 0\<close>. \<^verbatim>\<open>jnp.floor\<close> of it is again a float array,
  so the number that the loops use as the last dimension of their snapshot buffers and
  as the snapshot index is a float. A dimension or index is an \<open>IntDim\<close> or a
  \<open>FloatDim\<close>; \<^verbatim>\<open>jnp.zeros\<close> raises \<^verbatim>\<open>TypeError\<close> on a shape with a float in it, and
  so does indexing with a float. The progress line printed at every snapshot is not
  modelled. \<open>for_range\<close> is the \<^verbatim>\<open>for ii in range(n)\<close> loop over a body that can
  raise.
\<close>

fun for_each :: "(nat \<Rightarrow> 'st \<Rightarrow> error + 'st) \<Rightarrow> nat list \<Rightarrow> 'st \<Rightarrow> error + 'st" where
  "for_each body [] st = Inr st"
| "for_each body (ii # iis) st =
     (case body ii st of Inl err \<Rightarrow> Inl err | Inr st' \<Rightarrow> for_each body iis st')"

definition for_range :: "nat \<Rightarrow> (nat \<Rightarrow> 'st \<Rightarrow> error + 'st) \<Rightarrow> 'st \<Rightarrow> error + 'st" where
  "for_range n body st = for_each body [0..<n] st"

definition shape_of :: "cmat \<Rightarrow> nat list" where
  "shape_of a = [dim0 a, dim1 a]"

datatype dimension = IntDim nat | FloatDim real

definition true_divide :: "nat \<Rightarrow> nat \<Rightarrow> error + real" where
  "true_divide a b =
     (if b = 0 then Inl (ZeroDivisionError ''division by zero'') else Inr (real a / real b))"

definition jnp_floor :: "real \<Rightarrow> dimension" where
  "jnp_floor x = FloatDim (of_int \<lfloor>x\<rfloor>)"

text \<open>\<^verbatim>\<open>jnp.floor(a / b)\<close>, as the loops write it for the slot count and the slot index.\<close>

definition floor_quotient :: "nat \<Rightarrow> nat \<Rightarrow> error + dimension" where
  "floor_quotient a b =
     (case true_divide a b of Inl err \<Rightarrow> Inl err | Inr q \<Rightarrow> Inr (jnp_floor q))"

definition zeros :: "nat \<Rightarrow> nat \<Rightarrow> nat \<Rightarrow> ctensor" where
  "zeros h w n = replicate h (replicate w (replicate n 0))"

definition jnp_zeros :: "dimension \<Rightarrow> dimension \<Rightarrow> dimension \<Rightarrow> error + ctensor" where
  "jnp_zeros d0 d1 d2 =
     (case (d0, d1, d2) of
        (IntDim h, IntDim w, IntDim n) \<Rightarrow> Inr (zeros h w n)
      | _ \<Rightarrow> Inl (TypeError ''Shapes must be 1D sequences of concrete values of integer type''))"

text \<open>
  \<^verbatim>\<open>buffer.at[:, :, saver].set(values)\<close> is an expression: its value is a new array
  that holds \<open>values\<close> at index \<open>saver\<close> of the last axis (an index past the end writes
  nothing), and \<open>buffer\<close> itself is left as it was. A float index raises.
\<close>

definition at_set :: "ctensor \<Rightarrow> dimension \<Rightarrow> cmat \<Rightarrow> error + ctensor" where
  "at_set buffer saver values =
     (case saver of
        IntDim i \<Rightarrow>
          Inr (map2 (\<lambda>brow vrow. map2 (\<lambda>cell v. cell[i := v]) brow vrow) buffer values)
      | FloatDim _ \<Rightarrow> Inl (TypeError ''Indexer must have integer or boolean type''))"

definition positions_of :: "cmat \<Rightarrow> (real \<times> real) list" where
  "positions_of pos_list = map (\<lambda>row. (Re (row ! 0), Re (row ! 1))) pos_list"

subsection \<open>Single slice, fixed positions\<close>

definition forward_fn ::
  "(real \<times> real) list \<Rightarrow> real \<Rightarrow> real \<Rightarrow> real \<Rightarrow> cmat \<Rightarrow> cmat \<Rightarrow> real list list list" where
  "forward_fn pos_list slice_thickness voltage_kV calib_ang pot_slice beam =
     stem_4D [pot_slice] [beam] pos_list slice_thickness voltage_kV calib_ang"

definition update_step ::
  "'s externals \<Rightarrow> (cmat \<Rightarrow> cmat \<Rightarrow> real) \<Rightarrow> 's Optimizer \<Rightarrow> real \<Rightarrow>
   cmat \<times> cmat \<times> 's \<times> 's \<Rightarrow> cmat \<times> cmat \<times> 's \<times> 's \<times> real" where
  "update_step jax loss_func optimizer learning_rate st =
     (case st of (pot_slice, beam, pot_slice_state, beam_state) \<Rightarrow>
        let (loss, grads) = value_and_grad2 jax loss_func pot_slice beam;
            (pot_slice', pot_slice_state') =
               update optimizer pot_slice (fst grads) pot_slice_state (Scalar learning_rate);
            (beam', beam_state') =
               update optimizer beam (snd grads) beam_state (Scalar learning_rate)
        in (pot_slice', beam', pot_slice_state', beam_state', loss))"

text \<open>
  One pass of the loop body. At a snapshot iteration the two \<^verbatim>\<open>.at[...].set(...)\<close>
  expressions are evaluated and their values are bound to no name, so an iteration that
  does not raise hands on the buffers it received.
\<close>

definition iteration ::
  "'s externals \<Rightarrow> (cmat \<Rightarrow> cmat \<Rightarrow> real) \<Rightarrow> 's Optimizer \<Rightarrow> real \<Rightarrow> nat \<Rightarrow> nat \<Rightarrow>
   cmat \<times> cmat \<times> 's \<times> 's \<times> ctensor \<times> ctensor \<Rightarrow>
   error + (cmat \<times> cmat \<times> 's \<times> 's \<times> ctensor \<times> ctensor)" where
  "iteration jax loss_func optimizer learning_rate save_every ii st =
     (case st of
        (pot_slice, beam, pot_slice_state, beam_state, intermediate_potslice, intermediate_beam) \<Rightarrow>
        (case update_step jax loss_func optimizer learning_rate
                (pot_slice, beam, pot_slice_state, beam_state) of
           (pot_slice', beam', pot_slice_state', beam_state', loss) \<Rightarrow>
             if save_every = 0 then Inl (ZeroDivisionError ''integer modulo by zero'')
             else if ii mod save_every = 0 then
               (case floor_quotient ii save_every of
                  Inl err \<Rightarrow> Inl err
                | Inr saver \<Rightarrow>
               (case at_set intermediate_potslice saver pot_slice' of
                  Inl err \<Rightarrow> Inl err
                | Inr unbound_potslice \<Rightarrow>
               (case at_set intermediate_beam saver beam' of
                  Inl err \<Rightarrow> Inl err
                | Inr unbound_beam \<Rightarrow>
                    Inr (pot_slice', beam', pot_slice_state', beam_state',
                         intermediate_potslice, intermediate_beam))))
             else Inr (pot_slice', beam', pot_slice_state', beam_state',
                       intermediate_potslice, intermediate_beam)))"

definition single_slice_ptychography ::
  "'s externals \<Rightarrow> real list list list \<Rightarrow> CalibratedArray \<Rightarrow> CalibratedArray \<Rightarrow>
   (real \<times> real) list \<Rightarrow> real \<Rightarrow> real \<Rightarrow> real \<Rightarrow> nat \<Rightarrow> nat \<Rightarrow> real \<Rightarrow> string \<Rightarrow> string \<Rightarrow>
   error + (CalibratedArray \<times> CalibratedArray \<times> ctensor \<times> ctensor)" where
  "single_slice_ptychography ext experimental_4dstem initial_potential initial_beam pos_list
       slice_thickness voltage_kV calib_ang save_every num_iterations learning_rate
       loss_type optimizer_name =
     (case create_loss_function
             (\<lambda>(pot_slice, beam).
                forward_fn pos_list slice_thickness voltage_kV calib_ang pot_slice beam)
             experimental_4dstem loss_type of
        Inl err \<Rightarrow> Inl err
      | Inr loss_fn \<Rightarrow>
     (case get_optimizer ext optimizer_name of
        Inl err \<Rightarrow> Inl err
      | Inr optimizer \<Rightarrow>
          let loss_func = (\<lambda>pot_slice beam. loss_fn (pot_slice, beam));
              pot_slice_state = init optimizer (shape_of (data_array initial_potential));
              beam_state = init optimizer (shape_of (data_array initial_beam));
              pot_slice = data_array initial_potential;
              beam = (if real_space initial_beam then data_array initial_beam
                      else ifft2_mat (data_array initial_beam))
          in
     (case floor_quotient num_iterations save_every of
        Inl err \<Rightarrow> Inl err
      | Inr slots_potslice \<Rightarrow>
     (case jnp_zeros (IntDim (dim0 pot_slice)) (IntDim (dim1 pot_slice)) slots_potslice of
        Inl err \<Rightarrow> Inl err
      | Inr intermediate_potslice \<Rightarrow>
     (case floor_quotient num_iterations save_every of
        Inl err \<Rightarrow> Inl err
      | Inr slots_beam \<Rightarrow>
     (case jnp_zeros (IntDim (dim0 beam)) (IntDim (dim1 beam)) slots_beam of
        Inl err \<Rightarrow> Inl err
      | Inr intermediate_beam \<Rightarrow>
     (case for_range num_iterations
                (iteration ext loss_func optimizer learning_rate save_every)
                (pot_slice, beam, pot_slice_state, beam_state,
                 intermediate_potslice, intermediate_beam) of
        Inl err \<Rightarrow> Inl err
      | Inr (pot_slice', beam', pot_slice_state', beam_state',
             intermediate_potslice', intermediate_beam') \<Rightarrow>
          let final_potential =
                \<lparr>data_array = pot_slice',
                 calib_y = calib_y initial_potential,
                 calib_x = calib_x initial_potential,
                 real_space = True\<rparr>;
              final_beam =
                \<lparr>data_array = beam',
                 calib_y = calib_y initial_beam,
                 calib_x = calib_x initial_beam,
                 real_space = True\<rparr>
          in Inr (final_potential, final_beam,
                  intermediate_potslice', intermediate_beam'))))))))"

subsection \<open>Single slice with position correction\<close>

text \<open>
  \<^verbatim>\<open>single_slice_poscorrected\<close>. The learning rate is normalised after the optimizer
  states are made: \<^verbatim>\<open>jnp.array(learning_rate)\<close> (a float becomes \<open>Scalar\<close>, an array
  stays what it is), then \<^verbatim>\<open>len(learning_rate) == 1\<close>. The update step reads
  \<^verbatim>\<open>learning_rate[1]\<close> for the positions and hands the whole array to the other two
  updates.
\<close>

definition forward_fn_pos ::
  "real \<Rightarrow> real \<Rightarrow> real \<Rightarrow> cmat \<Rightarrow> cmat \<Rightarrow> cmat \<Rightarrow> real list list list" where
  "forward_fn_pos slice_thickness voltage_kV calib_ang pot_slice beam pos_list =
     stem_4D [pot_slice] [beam] (positions_of pos_list) slice_thickness voltage_kV calib_ang"

definition normalize_learning_rate :: "farray \<Rightarrow> error + farray" where
  "normalize_learning_rate learning_rate =
     (case len_farray learning_rate of
        Inl err \<Rightarrow> Inl err
      | Inr n \<Rightarrow>
          if n = 1 then Inr (Nested [learning_rate, learning_rate]) else Inr learning_rate)"

definition update_step_pos ::
  "'s externals \<Rightarrow> (cmat \<Rightarrow> cmat \<Rightarrow> cmat \<Rightarrow> real) \<Rightarrow> 's Optimizer \<Rightarrow> farray \<Rightarrow>
   cmat \<times> cmat \<times> cmat \<times> 's \<times> 's \<times> 's \<Rightarrow>
   error + (cmat \<times> cmat \<times> cmat \<times> 's \<times> 's \<times> 's \<times> real)" where
  "update_step_pos jax loss_func optimizer learning_rate st =
     (case st of (pot_slice, beam, pos_list, pot_slice_state, beam_state, pos_state) \<Rightarrow>
        let (loss, grads) = value_and_grad3 jax loss_func pot_slice beam pos_list;
            (pot_slice', pot_slice_state') =
               update optimizer pot_slice (fst grads) pot_slice_state learning_rate;
            (beam', beam_state') =
               update optimizer beam (fst (snd grads)) beam_state learning_rate
        in (case index_farray learning_rate 1 of
              Inl err \<Rightarrow> Inl err
            | Inr pos_learning_rate \<Rightarrow>
                let (pos_list', pos_state') =
                      update optimizer pos_list (snd (snd grads)) pos_state pos_learning_rate
                in Inr (pot_slice', beam', pos_list',
                        pot_slice_state', beam_state', pos_state', loss)))"

definition iteration_pos ::
  "'s externals \<Rightarrow> (cmat \<Rightarrow> cmat \<Rightarrow> cmat \<Rightarrow> real) \<Rightarrow> 's Optimizer \<Rightarrow> farray \<Rightarrow> nat \<Rightarrow> nat \<Rightarrow>
   cmat \<times> cmat \<times> cmat \<times> 's \<times> 's \<times> 's \<times> ctensor \<times> ctensor \<times> ctensor \<Rightarrow>
   error + (cmat \<times> cmat \<times> cmat \<times> 's \<times> 's \<times> 's \<times> ctensor \<times> ctensor \<times> ctensor)" where
  "iteration_pos jax loss_func optimizer learning_rate save_every ii st =
     (case st of
        (pot_guess, beam_guess, pos_guess, pot_slice_state, beam_state, pos_state,
         intermediate_potslices, intermediate_beams, intermediate_positions) \<Rightarrow>
        (case update_step_pos jax loss_func optimizer learning_rate
                (pot_guess, beam_guess, pos_guess, pot_slice_state, beam_state, pos_state) of
           Inl err \<Rightarrow> Inl err
         | Inr (pot_guess', beam_guess', pos_guess',
                pot_slice_state', beam_state', pos_state', loss) \<Rightarrow>
             if save_every = 0 then Inl (ZeroDivisionError ''integer modulo by zero'')
             else if ii mod save_every = 0 then
               (case floor_quotient ii save_every of
                  Inl err \<Rightarrow> Inl err
                | Inr saver \<Rightarrow>
               (case at_set intermediate_potslices saver pot_guess' of
                  Inl err \<Rightarrow> Inl err
                | Inr unbound_potslices \<Rightarrow>
               (case at_set intermediate_beams saver beam_guess' of
                  Inl err \<Rightarrow> Inl err
                | Inr unbound_beams \<Rightarrow>
               (case at_set intermediate_positions saver pos_guess' of
                  Inl err \<Rightarrow> Inl err
                | Inr unbound_positions \<Rightarrow>
                    Inr (pot_guess', beam_guess', pos_guess',
                         pot_slice_state', beam_state', pos_state',
                         intermediate_potslices, intermediate_beams,
                         intermediate_positions)))))
             else Inr (pot_guess', beam_guess', pos_guess',
                       pot_slice_state', beam_state', pos_state',
                       intermediate_potslices, intermediate_beams, intermediate_positions)))"

definition single_slice_poscorrected ::
  "'s externals \<Rightarrow> real list list list \<Rightarrow> CalibratedArray \<Rightarrow> CalibratedArray \<Rightarrow> cmat \<Rightarrow>
   real \<Rightarrow> real \<Rightarrow> real \<Rightarrow> nat \<Rightarrow> nat \<Rightarrow> farray \<Rightarrow> string \<Rightarrow> string \<Rightarrow>
   error + (CalibratedArray \<times> CalibratedArray \<times> cmat \<times> ctensor \<times> ctensor \<times> ctensor)" where
  "single_slice_poscorrected ext experimental_4dstem initial_potential initial_beam
       initial_pos_list slice_thickness voltage_kV calib_ang save_every num_iterations
       learning_rate loss_type optimizer_name =
     (case create_loss_function
             (\<lambda>(pot_slice, beam, pos_list).
                forward_fn_pos slice_thickness voltage_kV calib_ang pot_slice beam pos_list)
             experimental_4dstem loss_type of
        Inl err \<Rightarrow> Inl err
      | Inr loss_fn \<Rightarrow>
     (case get_optimizer ext optimizer_name of
        Inl err \<Rightarrow> Inl err
      | Inr optimizer \<Rightarrow>
          let loss_func = (\<lambda>pot_slice beam pos_list. loss_fn (pot_slice, beam, pos_list));
              pot_slice_state = init optimizer (shape_of (data_array initial_potential));
              beam_state = init optimizer (shape_of (data_array initial_beam));
              pos_state = init optimizer (shape_of initial_pos_list)
          in
     (case normalize_learning_rate learning_rate of
        Inl err \<Rightarrow> Inl err
      | Inr learning_rate' \<Rightarrow>
          let pot_guess = data_array initial_potential;
              beam_guess = data_array initial_beam;
              pos_guess = initial_pos_list
          in
     (case floor_quotient num_iterations save_every of
        Inl err \<Rightarrow> Inl err
      | Inr slots_potslices \<Rightarrow>
     (case jnp_zeros (IntDim (dim0 pot_guess)) (IntDim (dim1 pot_guess)) slots_potslices of
        Inl err \<Rightarrow> Inl err
      | Inr intermediate_potslices \<Rightarrow>
     (case floor_quotient num_iterations save_every of
        Inl err \<Rightarrow> Inl err
      | Inr slots_beams \<Rightarrow>
     (case jnp_zeros (IntDim (dim0 beam_guess)) (IntDim (dim1 beam_guess)) slots_beams of
        Inl err \<Rightarrow> Inl err
      | Inr intermediate_beams \<Rightarrow>
     (case floor_quotient num_iterations save_every of
        Inl err \<Rightarrow> Inl err
      | Inr slots_positions \<Rightarrow>
     (case jnp_zeros (IntDim (dim0 pos_guess)) (IntDim (dim1 pos_guess)) slots_positions of
        Inl err \<Rightarrow> Inl err
      | Inr intermediate_positions \<Rightarrow>
     (case for_range num_iterations
                (iteration_pos ext loss_func optimizer learning_rate' save_every)
                (pot_guess, beam_guess, pos_guess,
                 pot_slice_state, beam_state, pos_state,
                 intermediate_potslices, intermediate_beams, intermediate_positions) of
        Inl err \<Rightarrow> Inl err
      | Inr (pot_guess', beam_guess', pos_guess',
             pot_slice_state', beam_state', pos_state',
             intermediate_potslices', intermediate_beams', intermediate_positions') \<Rightarrow>
          let final_potential =
                \<lparr>data_array = pot_guess',
                 calib_y = calib_y initial_potential,
                 calib_x = calib_x initial_potential,
                 real_space = True\<rparr>;
              final_beam =
                \<lparr>data_array = beam_guess',
                 calib_y = calib_y initial_beam,
                 calib_x = calib_x initial_beam,
                 real_space = True\<rparr>
          in Inr (final_potential, final_beam, pos_guess',
                  intermediate_potslices', intermediate_beams',
                  intermediate_positions')))))))))))"

subsection \<open>The two multi-modal loops\<close>

text \<open>
  \<^verbatim>\<open>single_slice_multi_modal\<close> and \<^verbatim>\<open>multi_slice_multi_modal\<close>. Both define the
  same forward function as the position-corrected loop and run the same loop body, with
  snapshots of the potential and the beam. They differ in their update step: that of
  \<^verbatim>\<open>multi_slice_multi_modal\<close> takes two scalar learning rates; that of
  \<^verbatim>\<open>single_slice_multi_modal\<close> hands its learning rate to the first two updates and
  then reads the name \<^verbatim>\<open>pos_learning_rate\<close>, which the function does not define.

  The beam argument of \<^verbatim>\<open>single_slice_multi_modal\<close> is annotated \<^verbatim>\<open>pte.ProbeModes\<close>, a
  container that is not among the sources, and the body reads it as an array
  (\<^verbatim>\<open>.shape\<close>, the optimizer update, the snapshot). That reading is a parameter
  \<open>as_array\<close> of the model: the array of the container, or the error that the first
  attribute access raises.
\<close>

definition update_step_modal_undefined ::
  "'s externals \<Rightarrow> (cmat \<Rightarrow> cmat \<Rightarrow> cmat \<Rightarrow> real) \<Rightarrow> 's Optimizer \<Rightarrow> farray \<Rightarrow>
   cmat \<times> cmat \<times> cmat \<times> 's \<times> 's \<times> 's \<Rightarrow>
   error + (cmat \<times> cmat \<times> cmat \<times> 's \<times> 's \<times> 's \<times> real)" where
  "update_step_modal_undefined jax loss_func optimizer learning_rate st =
     (case st of (pot_slice, beam, pos_list, pot_slice_state, beam_state, pos_state) \<Rightarrow>
        let (loss, grads) = value_and_grad3 jax loss_func pot_slice beam pos_list;
            (pot_slice', pot_slice_state') =
               update optimizer pot_slice (fst grads) pot_slice_state learning_rate;
            (beam', beam_state') =
               update optimizer beam (fst (snd grads)) beam_state learning_rate
        in Inl (NameError ''pos_learning_rate''))"

definition update_step_modal ::
  "'s externals \<Rightarrow> (cmat \<Rightarrow> cmat \<Rightarrow> cmat \<Rightarrow> real) \<Rightarrow> 's Optimizer \<Rightarrow> real \<Rightarrow> real \<Rightarrow>
   cmat \<times> cmat \<times> cmat \<times> 's \<times> 's \<times> 's \<Rightarrow>
   error + (cmat \<times> cmat \<times> cmat \<times> 's \<times> 's \<times> 's \<times> real)" where
  "update_step_modal jax loss_func optimizer learning_rate pos_learning_rate st =
     (case st of (pot_slice, beam, pos_list, pot_slice_state, beam_state, pos_state) \<Rightarrow>
        let (loss, grads) = value_and_grad3 jax loss_func pot_slice beam pos_list;
            (pot_slice', pot_slice_state') =
               update optimizer pot_slice (fst grads) pot_slice_state (Scalar learning_rate);
            (beam', beam_state') =
               update optimizer beam (fst (snd grads)) beam_state (Scalar learning_rate);
            (pos_list', pos_state') =
               update optimizer pos_list (snd (snd grads)) pos_state (Scalar pos_learning_rate)
        in Inr (pot_slice', beam', pos_list',
                pot_slice_state', beam_state', pos_state', loss))"

definition iteration_modal ::
  "(cmat \<times> cmat \<times> cmat \<times> 's \<times> 's \<times> 's \<Rightarrow>
      error + (cmat \<times> cmat \<times> cmat \<times> 's \<times> 's \<times> 's \<times> real)) \<Rightarrow> nat \<Rightarrow> nat \<Rightarrow>
   cmat \<times> cmat \<times> cmat \<times> 's \<times> 's \<times> 's \<times> ctensor \<times> ctensor \<Rightarrow>
   error + (cmat \<times> cmat \<times> cmat \<times> 's \<times> 's \<times> 's \<times> ctensor \<times> ctensor)" where
  "iteration_modal step save_every ii st =
     (case st of
        (pot_slice, beam, pos_list, pot_slice_state, beam_state, pos_state,
         intermediate_potslice, intermediate_beam) \<Rightarrow>
        (case step (pot_slice, beam, pos_list, pot_slice_state, beam_state, pos_state) of
           Inl err \<Rightarrow> Inl err
         | Inr (pot_slice', beam', pos_list',
                pot_slice_state', beam_state', pos_state', loss) \<Rightarrow>
             if save_every = 0 then Inl (ZeroDivisionError ''integer modulo by zero'')
             else if ii mod save_every = 0 then
               (case floor_quotient ii save_every of
                  Inl err \<Rightarrow> Inl err
                | Inr saver \<Rightarrow>
               (case at_set intermediate_potslice saver pot_slice' of
                  Inl err \<Rightarrow> Inl err
                | Inr unbound_potslice \<Rightarrow>
               (case at_set intermediate_beam saver beam' of
                  Inl err \<Rightarrow> Inl err
                | Inr unbound_beam \<Rightarrow>
                    Inr (pot_slice', beam', pos_list',
                         pot_slice_state', beam_state', pos_state',
                         intermediate_potslice, intermediate_beam))))
             else Inr (pot_slice', beam', pos_list',
                       pot_slice_state', beam_state', pos_state',
                       intermediate_potslice, intermediate_beam)))"

text \<open>
  What both functions do from the allocation of the buffers on, given the loss
  function, the arrays and the update step.
\<close>

definition run_modal ::
  "(cmat \<times> cmat \<times> cmat \<times> 's \<times> 's \<times> 's \<Rightarrow>
      error + (cmat \<times> cmat \<times> cmat \<times> 's \<times> 's \<times> 's \<times> real)) \<Rightarrow>
   cmat \<Rightarrow> cmat \<Rightarrow> cmat \<Rightarrow> 's \<Rightarrow> 's \<Rightarrow> 's \<Rightarrow> nat \<Rightarrow> nat \<Rightarrow>
   error + (cmat \<times> cmat \<times> cmat \<times> ctensor \<times> ctensor)" where
  "run_modal step initial_pot_slice initial_beam initial_pos_list
       pot_slice_state beam_state pos_state save_every num_iterations =
     (let pot_slice = initial_pot_slice;
          beam = initial_beam;
          pos_list = initial_pos_list
      in
     (case floor_quotient num_iterations save_every of
        Inl err \<Rightarrow> Inl err
      | Inr slots_potslice \<Rightarrow>
     (case jnp_zeros (IntDim (dim0 initial_pot_slice)) (IntDim (dim1 initial_pot_slice))
             slots_potslice of
        Inl err \<Rightarrow> Inl err
      | Inr intermediate_potslice \<Rightarrow>
     (case floor_quotient num_iterations save_every of
        Inl err \<Rightarrow> Inl err
      | Inr slots_beam \<Rightarrow>
     (case jnp_zeros (IntDim (dim0 initial_beam)) (IntDim (dim1 initial_beam)) slots_beam of
        Inl err \<Rightarrow> Inl err
      | Inr intermediate_beam \<Rightarrow>
     (case for_range num_iterations (iteration_modal step save_every)
                (pot_slice, beam, pos_list, pot_slice_state, beam_state, pos_state,
                 intermediate_potslice, intermediate_beam) of
        Inl err \<Rightarrow> Inl err
      | Inr (pot_slice', beam', pos_list', pot_slice_state', beam_state', pos_state',
             intermediate_potslice', intermediate_beam') \<Rightarrow>
          Inr (pot_slice', beam', pos_list',
               intermediate_potslice', intermediate_beam')))))))"

definition single_slice_multi_modal ::
  "'s externals \<Rightarrow> ('b \<Rightarrow> error + cmat) \<Rightarrow> real list list list \<Rightarrow> cmat \<Rightarrow> 'b \<Rightarrow> cmat \<Rightarrow>
   real \<Rightarrow> real \<Rightarrow> real \<Rightarrow> nat \<Rightarrow> nat \<Rightarrow> farray \<Rightarrow> string \<Rightarrow> string \<Rightarrow>
   error + (cmat \<times> cmat \<times> cmat \<times> ctensor \<times> ctensor)" where
  "single_slice_multi_modal ext as_array experimental_4dstem initial_pot_slice initial_beam
       initial_pos_list slice_thickness voltage_kV calib_ang save_every num_iterations
       learning_rate loss_type optimizer_name =
     (case create_loss_function
             (\<lambda>(pot_slice, beam, pos_list).
                forward_fn_pos slice_thickness voltage_kV calib_ang pot_slice beam pos_list)
             experimental_4dstem loss_type of
        Inl err \<Rightarrow> Inl err
      | Inr loss_fn \<Rightarrow>
     (case get_optimizer ext optimizer_name of
        Inl err \<Rightarrow> Inl err
      | Inr optimizer \<Rightarrow>
          let loss_func = (\<lambda>pot_slice beam pos_list. loss_fn (pot_slice, beam, pos_list));
              pot_slice_state = init optimizer (shape_of initial_pot_slice)
          in
     (case as_array initial_beam of
        Inl err \<Rightarrow> Inl err
      | Inr beam_array \<Rightarrow>
          let beam_state = init optimizer (shape_of beam_array);
              pos_state = init optimizer (shape_of initial_pos_list)
          in run_modal (update_step_modal_undefined ext loss_func optimizer learning_rate)
               initial_pot_slice beam_array initial_pos_list
               pot_slice_state beam_state pos_state save_every num_iterations)))"

definition multi_slice_multi_modal ::
  "'s externals \<Rightarrow> real list list list \<Rightarrow> cmat \<Rightarrow> cmat \<Rightarrow> cmat \<Rightarrow>
   real \<Rightarrow> real \<Rightarrow> real \<Rightarrow> nat \<Rightarrow> nat \<Rightarrow> real \<Rightarrow> real \<Rightarrow> string \<Rightarrow> string \<Rightarrow>
   error + (cmat \<times> cmat \<times> cmat \<times> ctensor \<times> ctensor)" where
  "multi_slice_multi_modal ext experimental_4dstem initial_pot_slice initial_beam
       initial_pos_list slice_thickness voltage_kV calib_ang save_every num_iterations
       learning_rate pos_learning_rate loss_type optimizer_name =
     (case create_loss_function
             (\<lambda>(pot_slice, beam, pos_list).
                forward_fn_pos slice_thickness voltage_kV calib_ang pot_slice beam pos_list)
             experimental_4dstem loss_type of
        Inl err \<Rightarrow> Inl err
      | Inr loss_fn \<Rightarrow>
     (case get_optimizer ext optimizer_name of
        Inl err \<Rightarrow> Inl err
      | Inr optimizer \<Rightarrow>
          let loss_func = (\<lambda>pot_slice beam pos_list. loss_fn (pot_slice, beam, pos_list));
              pot_slice_state = init optimizer (shape_of initial_pot_slice);
              beam_state = init optimizer (shape_of initial_beam);
              pos_state = init optimizer (shape_of initial_pos_list)
          in run_modal
               (update_step_modal ext loss_func optimizer learning_rate pos_learning_rate)
               initial_pot_slice initial_beam initial_pos_list
               pot_slice_state beam_state pos_state save_every num_iterations))"

subsection \<open>A concrete stand-in for the imported functions\<close>

text \<open>
  \<open>toy_externals\<close> stands in for the imported update rules and gradient, so that the
  loops can be evaluated on concrete inputs: every update adds 1 to each entry, and the
  optimizer state is trivial.
\<close>

definition toy_externals :: "unit externals" where
  "toy_externals =
     \<lparr>init_adam = (\<lambda>shape. ()),
      adam_update = (\<lambda>params grads state lr. (map (map (\<lambda>z. z + 1)) params, ())),
      init_adagrad = (\<lambda>shape. ()),
      adagrad_update = (\<lambda>params grads state lr. (map (map (\<lambda>z. z + 1)) params, ())),
      init_rmsprop = (\<lambda>shape. ()),
      rmsprop_update = (\<lambda>params grads state lr. (map (map (\<lambda>z. z + 1)) params, ())),
      value_and_grad2 = (\<lambda>f p b. (0, (p, b))),
      value_and_grad3 = (\<lambda>f p b q. (0, (p, b, q)))\<rparr>"

section \<open>Notions used in the proofs\<close>

text \<open>
  The one-dimensional sum of which \<open>dft2_sum\<close> is the iterate, the shape of a
  two-dimensional factor, and the phase ramp that \<open>apply_shift\<close> builds for one position.
\<close>

definition dft1 :: "real \<Rightarrow> nat \<Rightarrow> (nat \<Rightarrow> complex) \<Rightarrow> nat \<Rightarrow> complex" where
  "dft1 s N g k = (\<Sum>y<N. g y * cis (s * (2 * pi * (real (y * k) / real N))))"

definition mat_shape :: "nat \<Rightarrow> nat \<Rightarrow> 'a list list \<Rightarrow> bool" where
  "mat_shape H W k = (length k = H \<and> list_all (\<lambda>r. length r = W) k)"

definition phase_ramp :: "real list \<Rightarrow> real list \<Rightarrow> real \<Rightarrow> real \<Rightarrow> cmat" where
  "phase_ramp qy qx y_shift x_shift =
     map (\<lambda>qya. map (\<lambda>qxa.
        exp (\<i> * complex_of_real (- 2.0 * pi * ((qya * y_shift) + (qxa * x_shift))))) qx) qy"

section \<open>Properties of the wavelength and the transmission function\<close>

lemma wavelength_ang_unfold:
  "wavelength_ang V =
     10 ^ 10 * sqrt (h_planck\<^sup>2 * c_light\<^sup>2 /
       (V * 1000 * e_e * (2 * m_e * c_light\<^sup>2 + V * 1000 * e_e)))"
  by (simp add: wavelength_ang_def Let_def)

lemma sqrt_between:
  fixes q a eps :: real
  assumes "0 \<le> eps" and "0 \<le> a" and "(a - eps)\<^sup>2 \<le> q" and "q \<le> (a + eps)\<^sup>2"
  shows "\<bar>sqrt q - a\<bar> \<le> eps"
proof -
  have lo: "a - eps \<le> sqrt q"
    using assms(3) by (rule real_le_rsqrt)
  have "0 \<le> a + eps" using assms(1,2) by simp
  then have hi: "sqrt q \<le> a + eps"
    using assms(4) by (rule real_le_lsqrt)
  from lo hi show ?thesis by linarith
qed

lemma closed_form_positive:
  assumes "0 < V"
  shows "wavelength_ang V =
     10 ^ 10 * h_planck /
       sqrt (2 * m_e * e_e * (1000 * V) * (1 + e_e * (1000 * V) / (2 * m_e * c_light\<^sup>2)))"
proof -
  have mpos: "0 < m_e" and epos: "0 < e_e" and cpos: "0 < c_light" and hpos: "0 < h_planck"
    by (simp_all add: m_e_def e_e_def c_light_def h_planck_def)
  define E where "E = V * 1000 * e_e"
  have Epos: "0 < E" using assms epos by (simp add: E_def)
  have mc: "0 < 2 * m_e * c_light\<^sup>2" using mpos cpos by simp
  have den: "2 * m_e * E * (1 + E / (2 * m_e * c_light\<^sup>2))
      = E * (2 * m_e * c_light\<^sup>2 + E) / c_light\<^sup>2"
    using mpos cpos by (simp add: field_simps power2_eq_square)
  have quot: "h_planck\<^sup>2 * c_light\<^sup>2 / (E * (2 * m_e * c_light\<^sup>2 + E))
      = h_planck\<^sup>2 / (2 * m_e * E * (1 + E / (2 * m_e * c_light\<^sup>2)))"
    unfolding den using cpos by simp
  have "wavelength_ang V = 10 ^ 10 * sqrt (h_planck\<^sup>2 * c_light\<^sup>2 / (E * (2 * m_e * c_light\<^sup>2 + E)))"
    by (simp add: wavelength_ang_unfold E_def)
  also have "\<dots> = 10 ^ 10 * sqrt (h_planck\<^sup>2 / (2 * m_e * E * (1 + E / (2 * m_e * c_light\<^sup>2))))"
    by (simp only: quot)
  also have "\<dots> = 10 ^ 10 * (h_planck / sqrt (2 * m_e * E * (1 + E / (2 * m_e * c_light\<^sup>2))))"
    using hpos by (simp add: real_sqrt_divide)
  finally show ?thesis
    by (simp add: E_def mult_ac)
qed

text \<open>
  For a positive voltage every quotient has a positive denominator and the root a
  positive argument, so the wavelength is a positive real.
\<close>

lemma wavelength_ang_positive:
  assumes "0 < V"
  shows "0 < wavelength_ang V"
proof -
  have "0 < m_e" "0 < e_e" "0 < c_light" "0 < h_planck"
    by (simp_all add: m_e_def e_e_def c_light_def h_planck_def)
  then have "0 < h_planck\<^sup>2 * c_light\<^sup>2 /
       (V * 1000 * e_e * (2 * m_e * c_light\<^sup>2 + V * 1000 * e_e))"
    using assms by (intro divide_pos_pos mult_pos_pos add_pos_pos) simp_all
  then show ?thesis
    by (simp only: wavelength_ang_unfold) simp
qed

lemma wavelength_ang_within:
  fixes V a eps :: real
  assumes "0 \<le> eps" "0 \<le> a"
    and "(a - eps)\<^sup>2 \<le> 10 ^ 20 * (h_planck\<^sup>2 * c_light\<^sup>2 /
       (V * 1000 * e_e * (2 * m_e * c_light\<^sup>2 + V * 1000 * e_e)))"
    and "10 ^ 20 * (h_planck\<^sup>2 * c_light\<^sup>2 /
       (V * 1000 * e_e * (2 * m_e * c_light\<^sup>2 + V * 1000 * e_e))) \<le> (a + eps)\<^sup>2"
  shows "\<bar>wavelength_ang V - a\<bar> \<le> eps"
proof -
  let ?q = "h_planck\<^sup>2 * c_light\<^sup>2 /
       (V * 1000 * e_e * (2 * m_e * c_light\<^sup>2 + V * 1000 * e_e))"
  have "sqrt (10 ^ 20 * ?q) = sqrt ((10 ^ 10)\<^sup>2) * sqrt ?q"
    by (simp only: real_sqrt_mult [symmetric]) simp
  then have "wavelength_ang V = sqrt (10 ^ 20 * ?q)"
    by (simp only: wavelength_ang_unfold real_sqrt_abs) simp
  then show ?thesis
    using sqrt_between [OF assms(1,2,3,4)] by simp
qed

lemma wavelength_200: "\<bar>wavelength_ang 200 - 0.02508\<bar> \<le> 1 / 10 ^ 6"
  by (rule wavelength_ang_within)
     (simp_all add: m_e_def e_e_def c_light_def h_planck_def power2_eq_square)

lemma wavelength_300: "\<bar>wavelength_ang 300 - 0.0196875\<bar> \<le> 1 / 10 ^ 7"
  by (rule wavelength_ang_within)
     (simp_all add: m_e_def e_e_def c_light_def h_planck_def power2_eq_square)

lemma wavelength_1000: "\<bar>wavelength_ang 1000 - 0.0087192\<bar> \<le> 1 / 10 ^ 7"
  by (rule wavelength_ang_within)
     (simp_all add: m_e_def e_e_def c_light_def h_planck_def power2_eq_square)

text \<open>
  Claim C7. For every positive voltage \<open>V\<close> (in kV) \<open>wavelength_ang V\<close> is the closed-form
  relativistic wavelength \<open>1e10 h / sqrt (2 m e (1000 V) (1 + e (1000 V) / (2 m c\<^sup>2)))\<close>
  with the constants of the code; at 200 kV it is within \<open>1e-6\<close> of 0.02508, at 300 kV
  within \<open>1e-7\<close> of 0.0196875 and at 1000 kV within \<open>1e-7\<close> of 0.0087192 (angstroms).
\<close>

theorem wavelength_ang_closed_form:
  "(0 < V \<longrightarrow>
      wavelength_ang V =
        10 ^ 10 * h_planck /
          sqrt (2 * m_e * e_e * (1000 * V) * (1 + e_e * (1000 * V) / (2 * m_e * c_light\<^sup>2))))
   \<and> \<bar>wavelength_ang 200 - 0.02508\<bar> \<le> 1 / 10 ^ 6
   \<and> \<bar>wavelength_ang 300 - 0.0196875\<bar> \<le> 1 / 10 ^ 7
   \<and> \<bar>wavelength_ang 1000 - 0.0087192\<bar> \<le> 1 / 10 ^ 7"
  using closed_form_positive [of V] wavelength_200 wavelength_300 wavelength_1000
  by blast

theorem wavelength_ang_closed_form_witness:
  "wavelength_ang 200 =
     10 ^ 10 * h_planck /
       sqrt (2 * m_e * e_e * (1000 * 200) * (1 + e_e * (1000 * 200) / (2 * m_e * c_light\<^sup>2)))"
  using wavelength_ang_closed_form [of 200] by simp



section \<open>The discrete Fourier transform and its inverse\<close>

lemma cis_eq_one_imp:
  assumes "cis \<theta> = 1"
  shows "\<exists>n::int. \<theta> = of_int n * (2 * pi)"
proof -
  have "cos \<theta> = 1" using assms by (simp add: complex_eq_iff)
  then obtain n :: int where "\<theta> = of_int n * 2 * pi"
    using cos_one_2pi_int by blast
  then show ?thesis by (intro exI [of _ n]) simp
qed

lemma unit_phase_sum:
  fixes N j k :: nat and s :: real
  assumes s: "s = 1 \<or> s = - 1" and j: "j < N" and k: "k < N"
  shows "(\<Sum>t<N. cis (s * (2 * pi * (real (t * j) / real N)))
              * cis (- s * (2 * pi * (real (k * t) / real N))))
         = (if j = k then of_nat N else 0)"
proof -
  have N: "0 < N" using j by simp
  define \<theta> where "\<theta> = s * (2 * pi * ((real j - real k) / real N))"
  define z where "z = cis \<theta>"
  have pw: "cis (s * (2 * pi * (real (t * j) / real N)))
              * cis (- s * (2 * pi * (real (k * t) / real N))) = z ^ t" for t
  proof -
    have "s * (2 * pi * (real (t * j) / real N)) + (- s * (2 * pi * (real (k * t) / real N)))
          = real t * \<theta>"
      by (simp add: \<theta>_def right_diff_distrib diff_divide_distrib mult_ac)
    then show ?thesis
      by (simp only: cis_mult z_def DeMoivre)
  qed
  have sum_eq: "(\<Sum>t<N. cis (s * (2 * pi * (real (t * j) / real N)))
              * cis (- s * (2 * pi * (real (k * t) / real N)))) = (\<Sum>t<N. z ^ t)"
    by (simp only: pw)
  show ?thesis
  proof (cases "j = k")
    case True
    then have "z = 1" by (simp add: z_def \<theta>_def)
    then show ?thesis using True sum_eq by simp
  next
    case False
    have zN: "z ^ N = 1"
    proof -
      have "real N * \<theta> = 2 * pi * (s * (real j - real k))"
        using N by (simp add: \<theta>_def field_simps)
      moreover have "s * (real j - real k) \<in> \<int>"
      proof -
        have "real j - real k = of_int (int j - int k)" by simp
        then have "real j - real k \<in> \<int>" by (simp only: Ints_of_int)
        then show ?thesis using s by auto
      qed
      ultimately show ?thesis
        by (simp add: z_def DeMoivre)
    qed
    have z1: "z \<noteq> 1"
    proof
      assume "z = 1"
      then obtain n :: int where n: "\<theta> = of_int n * (2 * pi)"
        using cis_eq_one_imp unfolding z_def by blast
      then have "(s * (real j - real k)) * (2 * pi) = (of_int n * real N) * (2 * pi)"
        using N by (simp add: \<theta>_def field_simps)
      then have eq: "s * (real j - real k) = of_int n * real N"
        by (simp only: mult_cancel_right) simp
      have "\<bar>s * (real j - real k)\<bar> < real N"
        using s j k by (auto simp: abs_if)
      then have "\<bar>of_int n * real N\<bar> < real N" using eq by simp
      then have "\<bar>real_of_int n\<bar> * real N < 1 * real N" by (simp add: abs_mult)
      then have "\<bar>real_of_int n\<bar> < 1" using N by simp
      then have "n = 0" by linarith
      then have "real j = real k" using eq s by auto
      then show False using False by simp
    qed
    have "(\<Sum>t<N. z ^ t) = (z ^ N - 1) / (z - 1)"
      using z1 by (rule geometric_sum)
    then show ?thesis using False zN sum_eq by simp
  qed
qed

lemma dft1_inverse:
  assumes s: "s = 1 \<or> s = - 1" and k': "k' < N"
  shows "dft1 s N (dft1 (- s) N g) k' = of_nat N * g k'"
proof -
  have "dft1 s N (dft1 (- s) N g) k'
      = (\<Sum>k<N. \<Sum>y<N. g y * (cis (s * (2 * pi * (real (k * k') / real N)))
              * cis (- s * (2 * pi * (real (y * k) / real N)))))"
    unfolding dft1_def
  proof (intro sum.cong refl)
    fix k
    show "(\<Sum>y<N. g y * cis (- s * (2 * pi * (real (y * k) / real N))))
            * cis (s * (2 * pi * (real (k * k') / real N)))
        = (\<Sum>y<N. g y * (cis (s * (2 * pi * (real (k * k') / real N)))
              * cis (- s * (2 * pi * (real (y * k) / real N)))))"
      by (subst sum_distrib_right) (simp add: mult_ac)
  qed
  also have "\<dots> = (\<Sum>y<N. \<Sum>k<N. g y * (cis (s * (2 * pi * (real (k * k') / real N)))
              * cis (- s * (2 * pi * (real (y * k) / real N)))))"
    by (rule sum.swap)
  also have "\<dots> = (\<Sum>y<N. g y * (\<Sum>k<N. cis (s * (2 * pi * (real (k * k') / real N)))
              * cis (- s * (2 * pi * (real (y * k) / real N)))))"
    by (simp only: sum_distrib_left)
  also have "\<dots> = (\<Sum>y<N. g y * (if k' = y then of_nat N else 0))"
    by (rule sum.cong [OF refl]) (simp only: unit_phase_sum [OF s k'] lessThan_iff)
  also have "\<dots> = of_nat N * g k'"
    using k' by (simp add: sum.delta mult.commute if_distrib [of "\<lambda>c. _ * c"] cong: if_cong)
  finally show ?thesis .
qed

lemma sum_list_upt: "(\<Sum>i\<leftarrow>[0..<n]. g i) = (\<Sum>i<n. (g i :: complex))"
  by (simp add: interv_sum_list_conv_sum_set_nat atLeast0LessThan)

lemma sum_pull_factor:
  fixes F :: "nat \<Rightarrow> nat \<Rightarrow> complex"
  shows "(\<Sum>y<H. \<Sum>x<W. F y x * (B x * A y)) = (\<Sum>y<H. (\<Sum>x<W. F y x * B x) * A y)"
  by (simp only: sum_distrib_right mult.assoc)

lemma dft2_sum_dft1: "dft2_sum s H W f k l = dft1 s H (\<lambda>y. dft1 s W (f y) l) k"
proof -
  have split: "cis (s * (2 * pi * (real (y * k) / real H + real (x * l) / real W)))
      = cis (s * (2 * pi * (real (x * l) / real W))) * cis (s * (2 * pi * (real (y * k) / real H)))"
    for y x
    by (simp only: cis_mult) (simp add: distrib_left add.commute)
  have "dft2_sum s H W f k l
      = (\<Sum>y<H. \<Sum>x<W. f y x * cis (s * (2 * pi * (real (y * k) / real H + real (x * l) / real W))))"
    by (simp only: dft2_sum_def sum_list_upt)
  also have "\<dots> = (\<Sum>y<H. \<Sum>x<W. f y x * (cis (s * (2 * pi * (real (x * l) / real W)))
                       * cis (s * (2 * pi * (real (y * k) / real H)))))"
    by (simp only: split)
  also have "\<dots> = (\<Sum>y<H. (\<Sum>x<W. f y x * cis (s * (2 * pi * (real (x * l) / real W))))
                       * cis (s * (2 * pi * (real (y * k) / real H))))"
    by (rule sum_pull_factor)
  finally show ?thesis by (simp only: dft1_def)
qed

lemma dft2_sum_dft1_fun:
  "dft2_sum s H W f k = (\<lambda>l. dft1 s H (\<lambda>y. dft1 s W (f y) l) k)"
  by (rule ext) (rule dft2_sum_dft1)

lemma dft1_swap:
  "dft1 s W (\<lambda>l. dft1 t H (\<lambda>y. G y l) k) l' = dft1 t H (\<lambda>y. dft1 s W (G y) l') k"
proof -
  define A where "A y = cis (t * (2 * pi * (real (y * k) / real H)))" for y
  define B where "B l = cis (s * (2 * pi * (real (l * l') / real W)))" for l
  have "dft1 s W (\<lambda>l. dft1 t H (\<lambda>y. G y l) k) l' = (\<Sum>l<W. (\<Sum>y<H. G y l * A y) * B l)"
    by (simp only: dft1_def A_def B_def)
  also have "\<dots> = (\<Sum>l<W. \<Sum>y<H. G y l * (A y * B l))"
    by (simp only: sum_distrib_right mult.assoc)
  also have "\<dots> = (\<Sum>y<H. \<Sum>l<W. G y l * (A y * B l))"
    by (rule sum.swap)
  also have "\<dots> = (\<Sum>y<H. \<Sum>l<W. G y l * (B l * A y))"
    by (simp only: mult.commute [of "A _" "B _"])
  also have "\<dots> = (\<Sum>y<H. (\<Sum>l<W. G y l * B l) * A y)"
    by (rule sum_pull_factor)
  finally show ?thesis by (simp only: dft1_def A_def B_def)
qed

lemma dft2_inverse:
  assumes s: "s = 1 \<or> s = - 1" and k': "k' < H" and l': "l' < W"
  shows "dft2_sum s H W (dft2_sum (- s) H W f) k' l' = of_nat (H * W) * f k' l'"
proof -
  have inner: "dft1 s W (\<lambda>l. dft1 (- s) H (\<lambda>y. dft1 (- s) W (f y) l) k) l'
      = dft1 (- s) H (\<lambda>y. of_nat W * f y l') k" for k
  proof -
    have "dft1 s W (\<lambda>l. dft1 (- s) H (\<lambda>y. dft1 (- s) W (f y) l) k) l'
        = dft1 (- s) H (\<lambda>y. dft1 s W (dft1 (- s) W (f y)) l') k"
      by (rule dft1_swap)
    then show ?thesis by (simp only: dft1_inverse [OF s l'])
  qed
  have "dft2_sum s H W (dft2_sum (- s) H W f) k' l'
      = dft1 s H (\<lambda>k. dft1 s W (\<lambda>l. dft1 (- s) H (\<lambda>y. dft1 (- s) W (f y) l) k) l') k'"
    by (simp only: dft2_sum_dft1 dft2_sum_dft1_fun)
  also have "\<dots> = dft1 s H (dft1 (- s) H (\<lambda>y. of_nat W * f y l')) k'"
    by (simp only: inner)
  also have "\<dots> = of_nat H * (of_nat W * f k' l')"
    by (rule dft1_inverse [OF s k'])
  finally show ?thesis by simp
qed

lemma dft2_sum_cong:
  assumes "\<And>y x. y < H \<Longrightarrow> x < W \<Longrightarrow> f y x = g y x"
  shows "dft2_sum s H W f k l = dft2_sum s H W g k l"
  unfolding dft2_sum_def sum_list_upt
  by (intro sum.cong refl) (simp add: assms)

lemma dft2_sum_divide:
  "dft2_sum s H W (\<lambda>y x. f y x / c) k l = dft2_sum s H W f k l / c"
  unfolding dft2_sum_def sum_list_upt
  by (simp add: sum_divide_distrib)

lemma has_shape_length: "has_shape H W M a \<Longrightarrow> length a = H"
  by (simp add: has_shape_def)

lemma has_shape_row: "has_shape H W M a \<Longrightarrow> k < H \<Longrightarrow> length (a ! k) = W"
  by (auto simp add: has_shape_def list_all_length)

lemma has_shape_cell:
  "has_shape H W M a \<Longrightarrow> k < H \<Longrightarrow> l < W \<Longrightarrow> length (a ! k ! l) = M"
  by (auto simp add: has_shape_def list_all_length)

lemma has_shapeI:
  assumes "length a = H" and "\<And>k. k < H \<Longrightarrow> length (a ! k) = W"
    and "\<And>k l. k < H \<Longrightarrow> l < W \<Longrightarrow> length (a ! k ! l) = M"
  shows "has_shape H W M a"
  using assms by (auto simp add: has_shape_def list_all_length)

lemma has_shape_dim0: "has_shape H W M a \<Longrightarrow> dim0 a = H"
  by (simp add: has_shape_def dim0_def)

lemma has_shape_dim1: "has_shape H W M a \<Longrightarrow> 0 < H \<Longrightarrow> dim1 a = W"
  by (cases a) (auto simp add: has_shape_def dim1_def)

lemma has_shape_dim2: "has_shape H W M a \<Longrightarrow> 0 < H \<Longrightarrow> 0 < W \<Longrightarrow> dim2 a = M"
  by (cases a; cases "hd a") (auto simp add: has_shape_def dim2_def)

lemma has_shape_eqI:
  assumes a: "has_shape H W M a" and b: "has_shape H W M b"
    and eq: "\<And>k l m. k < H \<Longrightarrow> l < W \<Longrightarrow> m < M \<Longrightarrow> a ! k ! l ! m = b ! k ! l ! m"
  shows "a = b"
proof (rule nth_equalityI)
  show "length a = length b" using a b by (simp add: has_shape_length)
next
  fix k assume "k < length a"
  then have k: "k < H" using a by (simp add: has_shape_length)
  show "a ! k = b ! k"
  proof (rule nth_equalityI)
    show "length (a ! k) = length (b ! k)" using a b k by (simp add: has_shape_row)
  next
    fix l assume "l < length (a ! k)"
    then have l: "l < W" using a k by (simp add: has_shape_row)
    show "a ! k ! l = b ! k ! l"
    proof (rule nth_equalityI)
      show "length (a ! k ! l) = length (b ! k ! l)" using a b k l by (simp add: has_shape_cell)
    next
      fix m assume "m < length (a ! k ! l)"
      then have "m < M" using a k l by (simp add: has_shape_cell)
      then show "a ! k ! l ! m = b ! k ! l ! m" using k l by (rule eq [rotated 2])
    qed
  qed
qed

lemma fft2_shape:
  assumes "has_shape H W M a"
  shows "has_shape H W M (fft2 a)"
proof (rule has_shapeI)
  show "length (fft2 a) = H"
    using assms by (simp add: fft2_def Let_def has_shape_dim0)
next
  fix k assume k: "k < H"
  then show "length (fft2 a ! k) = W"
    using assms by (simp add: fft2_def Let_def has_shape_dim0 has_shape_dim1)
next
  fix k l assume "k < H" "l < W"
  then show "length (fft2 a ! k ! l) = M"
    using assms by (simp add: fft2_def Let_def has_shape_dim0 has_shape_dim1 has_shape_dim2)
qed

lemma ifft2_shape:
  assumes "has_shape H W M a"
  shows "has_shape H W M (ifft2 a)"
proof (rule has_shapeI)
  show "length (ifft2 a) = H"
    using assms by (simp add: ifft2_def Let_def has_shape_dim0)
next
  fix k assume k: "k < H"
  then show "length (ifft2 a ! k) = W"
    using assms by (simp add: ifft2_def Let_def has_shape_dim0 has_shape_dim1)
next
  fix k l assume "k < H" "l < W"
  then show "length (ifft2 a ! k ! l) = M"
    using assms by (simp add: ifft2_def Let_def has_shape_dim0 has_shape_dim1 has_shape_dim2)
qed

lemma fft2_nth:
  assumes "has_shape H W M a" "k < H" "l < W" "m < M"
  shows "fft2 a ! k ! l ! m = dft2_sum (- 1) H W (\<lambda>y x. a ! y ! x ! m) k l"
  using assms by (simp add: fft2_def Let_def has_shape_dim0 has_shape_dim1 has_shape_dim2)

lemma ifft2_nth:
  assumes "has_shape H W M a" "k < H" "l < W" "m < M"
  shows "ifft2 a ! k ! l ! m = dft2_sum 1 H W (\<lambda>y x. a ! y ! x ! m) k l / of_nat (H * W)"
  using assms by (simp add: ifft2_def Let_def has_shape_dim0 has_shape_dim1 has_shape_dim2)

lemma ifft2_fft2:
  assumes a: "has_shape H W M a"
  shows "ifft2 (fft2 a) = a"
proof (rule has_shape_eqI [OF ifft2_shape [OF fft2_shape [OF a]] a])
  fix k l m assume k: "k < H" and l: "l < W" and m: "m < M"
  have "ifft2 (fft2 a) ! k ! l ! m
      = dft2_sum 1 H W (\<lambda>y x. fft2 a ! y ! x ! m) k l / of_nat (H * W)"
    by (rule ifft2_nth [OF fft2_shape [OF a] k l m])
  also have "dft2_sum 1 H W (\<lambda>y x. fft2 a ! y ! x ! m) k l
      = dft2_sum 1 H W (dft2_sum (- 1) H W (\<lambda>y x. a ! y ! x ! m)) k l"
    by (rule dft2_sum_cong) (simp add: fft2_nth [OF a _ _ m])
  also have "\<dots> = of_nat (H * W) * a ! k ! l ! m"
    by (rule dft2_inverse [OF _ k l]) simp
  finally show "ifft2 (fft2 a) ! k ! l ! m = a ! k ! l ! m"
    using k l by simp
qed

lemma fft2_ifft2:
  assumes a: "has_shape H W M a"
  shows "fft2 (ifft2 a) = a"
proof (rule has_shape_eqI [OF fft2_shape [OF ifft2_shape [OF a]] a])
  fix k l m assume k: "k < H" and l: "l < W" and m: "m < M"
  have "fft2 (ifft2 a) ! k ! l ! m
      = dft2_sum (- 1) H W (\<lambda>y x. ifft2 a ! y ! x ! m) k l"
    by (rule fft2_nth [OF ifft2_shape [OF a] k l m])
  also have "\<dots> = dft2_sum (- 1) H W
       (\<lambda>y x. dft2_sum 1 H W (\<lambda>y x. a ! y ! x ! m) y x / of_nat (H * W)) k l"
    by (rule dft2_sum_cong) (simp add: ifft2_nth [OF a _ _ m])
  also have "\<dots> = dft2_sum (- 1) H W (dft2_sum (- (- 1)) H W (\<lambda>y x. a ! y ! x ! m)) k l
       / of_nat (H * W)"
    by (simp only: dft2_sum_divide) simp
  also have "dft2_sum (- 1) H W (dft2_sum (- (- 1)) H W (\<lambda>y x. a ! y ! x ! m)) k l
       = of_nat (H * W) * a ! k ! l ! m"
    by (rule dft2_inverse [OF _ k l]) simp
  finally show "fft2 (ifft2 a) ! k ! l ! m = a ! k ! l ! m"
    using k l by simp
qed

section \<open>Properties of the beam shift\<close>

lemma mat_shape_row: "mat_shape H W k \<Longrightarrow> i < H \<Longrightarrow> length (k ! i) = W"
  by (auto simp add: mat_shape_def list_all_length)

lemma mul_broadcast_row:
  assumes "has_shape H W M w" "mat_shape H W k" "i < H"
  shows "mul_broadcast w k ! i = map2 (\<lambda>cell t. map (\<lambda>z. z * t) cell) (w ! i) (k ! i)"
  using assms by (simp add: mul_broadcast_def has_shape_length mat_shape_def)

lemma mul_broadcast_cell:
  assumes "has_shape H W M w" "mat_shape H W k" "i < H" "j < W"
  shows "mul_broadcast w k ! i ! j = map (\<lambda>z. z * k ! i ! j) (w ! i ! j)"
proof -
  have "length (w ! i) = W" "length (k ! i) = W"
    using assms by (simp_all add: has_shape_row mat_shape_row)
  then show ?thesis
    using assms(4) by (simp add: mul_broadcast_row [OF assms(1,2,3)])
qed

lemma mul_broadcast_nth:
  assumes "has_shape H W M w" "mat_shape H W k" "i < H" "j < W" "m < M"
  shows "mul_broadcast w k ! i ! j ! m = w ! i ! j ! m * k ! i ! j"
proof -
  have "length (w ! i ! j) = M"
    using assms by (simp add: has_shape_cell)
  then show ?thesis
    using assms(5) by (simp add: mul_broadcast_cell [OF assms(1,2,3,4)])
qed

lemma mul_broadcast_shape:
  assumes w: "has_shape H W M w" and k: "mat_shape H W k"
  shows "has_shape H W M (mul_broadcast w k)"
proof (rule has_shapeI)
  show "length (mul_broadcast w k) = H"
    using w k by (simp add: mul_broadcast_def has_shape_length mat_shape_def)
next
  fix i assume i: "i < H"
  have "length (w ! i) = W" "length (k ! i) = W"
    using w k i by (simp_all add: has_shape_row mat_shape_row)
  then show "length (mul_broadcast w k ! i) = W"
    by (simp add: mul_broadcast_row [OF w k i])
next
  fix i j assume i: "i < H" and j: "j < W"
  show "length (mul_broadcast w k ! i ! j) = M"
    using has_shape_cell [OF w i j] by (simp add: mul_broadcast_cell [OF w k i j])
qed

lemma apply_shift_ramp:
  "apply_shift beam_k qy qx [(y, x)] 0 = ifft2 (mul_broadcast beam_k (phase_ramp qy qx y x))"
  by (simp add: apply_shift_def phase_ramp_def Let_def)

lemma shift_single:
  "shift_beam_fourier beam [(y, x)] c =
     [ifft2 (mul_broadcast (fft2 (atleast_3d beam))
        (phase_ramp (fftfreq (dim0 (atleast_3d beam)) c) (fftfreq (dim1 (atleast_3d beam)) c) y x))]"
  by (simp add: shift_beam_fourier_def Let_def apply_shift_ramp)

lemma length_fftfreq: "length (fftfreq n d) = n"
  by (simp add: fftfreq_def Let_def)

lemma phase_ramp_shape:
  assumes "has_shape H W M a"
  shows "mat_shape H W (phase_ramp (fftfreq (dim0 a) c) (fftfreq (dim1 a) c) y x)"
proof (cases "0 < H")
  case True
  then show ?thesis using assms
    by (simp add: mat_shape_def phase_ramp_def length_fftfreq has_shape_dim0 has_shape_dim1
        list_all_iff)
next
  case False
  then show ?thesis using assms
    by (simp add: mat_shape_def phase_ramp_def fftfreq_def has_shape_dim0)
qed

lemma phase_ramp_nth:
  assumes "i < length qy" "j < length qx"
  shows "phase_ramp qy qx y x ! i ! j
     = exp (\<i> * complex_of_real (- 2.0 * pi * ((qy ! i * y) + (qx ! j * x))))"
  using assms by (simp add: phase_ramp_def)

lemma phase_ramp_inverse:
  assumes "i < length qy" "j < length qx"
  shows "phase_ramp qy qx y x ! i ! j * phase_ramp qy qx (- y) (- x) ! i ! j = 1"
proof -
  have "- 2.0 * pi * ((qy ! i * y) + (qx ! j * x))
        + - 2.0 * pi * ((qy ! i * (- y)) + (qx ! j * (- x))) = 0"
    by (simp add: algebra_simps)
  then have "cis (- 2.0 * pi * ((qy ! i * y) + (qx ! j * x)))
           * cis (- 2.0 * pi * ((qy ! i * (- y)) + (qx ! j * (- x)))) = 1"
    by (simp only: cis_mult cis_zero)
  then show ?thesis
    by (simp only: phase_ramp_nth [OF assms] cis_conv_exp)
qed

lemma phase_ramp_zero:
  assumes "i < length qy" "j < length qx"
  shows "phase_ramp qy qx 0 0 ! i ! j = 1"
  using assms by (simp add: phase_ramp_nth)

lemma atleast_3d_Arr3: "atleast_3d (Arr3 t) = t"
  by (simp add: atleast_3d_def)

lemma shift_shape:
  assumes b: "has_shape H W M (atleast_3d beam)"
  shows "has_shape H W M (hd (shift_beam_fourier beam [(y, x)] c))"
  unfolding shift_single list.sel
  by (rule ifft2_shape [OF mul_broadcast_shape [OF fft2_shape [OF b] phase_ramp_shape [OF b]]])

lemma shift_zero:
  assumes b: "has_shape H W M (atleast_3d beam)"
  shows "shift_beam_fourier beam [(0, 0)] c = [atleast_3d beam]"
proof -
  let ?b = "atleast_3d beam"
  let ?r = "phase_ramp (fftfreq (dim0 ?b) c) (fftfreq (dim1 ?b) c) 0 0"
  have r: "mat_shape H W ?r" by (rule phase_ramp_shape [OF b])
  have "mul_broadcast (fft2 ?b) ?r = fft2 ?b"
  proof (rule has_shape_eqI [OF mul_broadcast_shape [OF fft2_shape [OF b] r] fft2_shape [OF b]])
    fix k l m assume k: "k < H" and l: "l < W" and m: "m < M"
    have "?r ! k ! l = 1"
      using k l b by (intro phase_ramp_zero) (simp_all add: length_fftfreq has_shape_dim0 has_shape_dim1)
    then show "mul_broadcast (fft2 ?b) ?r ! k ! l ! m = fft2 ?b ! k ! l ! m"
      by (simp add: mul_broadcast_nth [OF fft2_shape [OF b] r k l m])
  qed
  then show ?thesis
    by (simp add: shift_single ifft2_fft2 [OF b])
qed

lemma shift_back:
  assumes b: "has_shape H W M (atleast_3d beam)"
  shows "shift_beam_fourier (Arr3 (hd (shift_beam_fourier beam [(y, x)] c))) [(- y, - x)] c
         = [atleast_3d beam]"
proof -
  let ?b = "atleast_3d beam"
  let ?qy = "fftfreq (dim0 ?b) c" and ?qx = "fftfreq (dim1 ?b) c"
  let ?r = "phase_ramp ?qy ?qx y x"
  let ?r' = "phase_ramp ?qy ?qx (- y) (- x)"
  let ?X = "mul_broadcast (fft2 ?b) ?r"
  let ?b1 = "ifft2 ?X"
  have r: "mat_shape H W ?r" and r': "mat_shape H W ?r'"
    by (rule phase_ramp_shape [OF b])+
  have X: "has_shape H W M ?X"
    by (rule mul_broadcast_shape [OF fft2_shape [OF b] r])
  have b1: "has_shape H W M ?b1" by (rule ifft2_shape [OF X])
  have d0: "dim0 ?b1 = dim0 ?b"
    by (rule trans [OF has_shape_dim0 [OF b1] has_shape_dim0 [OF b, symmetric]])
  have ramp': "phase_ramp (fftfreq (dim0 ?b1) c) (fftfreq (dim1 ?b1) c) (- y) (- x) = ?r'"
  proof (cases "0 < H")
    case True
    have "dim1 ?b1 = dim1 ?b"
      by (rule trans [OF has_shape_dim1 [OF b1 True] has_shape_dim1 [OF b True, symmetric]])
    then show ?thesis by (simp only: d0)
  next
    case False
    then have z: "dim0 ?b = 0" using has_shape_dim0 [OF b] by simp
    have e1: "dim0 ?b1 = 0" using d0 z by (rule trans)
    have empty: "phase_ramp (fftfreq n c) qx1 y1 x1 = []" if "n = 0" for n qx1 y1 x1
      using that by (simp add: phase_ramp_def fftfreq_def)
    show ?thesis
      by (rule trans [OF empty [OF e1] empty [OF z, symmetric]])
  qed
  have restore: "mul_broadcast ?X ?r' = fft2 ?b"
  proof (rule has_shape_eqI [OF mul_broadcast_shape [OF X r'] fft2_shape [OF b]])
    fix k l m assume k: "k < H" and l: "l < W" and m: "m < M"
    have one: "?r ! k ! l * ?r' ! k ! l = 1"
      using k l b
      by (intro phase_ramp_inverse) (simp_all add: length_fftfreq has_shape_dim0 has_shape_dim1)
    have "mul_broadcast ?X ?r' ! k ! l ! m = fft2 ?b ! k ! l ! m * (?r ! k ! l * ?r' ! k ! l)"
      by (simp add: mul_broadcast_nth [OF X r' k l m]
          mul_broadcast_nth [OF fft2_shape [OF b] r k l m])
    then show "mul_broadcast ?X ?r' ! k ! l ! m = fft2 ?b ! k ! l ! m"
      by (simp only: one) simp
  qed
  have "shift_beam_fourier (Arr3 (hd (shift_beam_fourier beam [(y, x)] c))) [(- y, - x)] c
      = [ifft2 (mul_broadcast (fft2 ?b1) ?r')]"
    by (simp only: shift_single list.sel atleast_3d_Arr3 ramp')
  also have "fft2 ?b1 = ?X" by (rule fft2_ifft2 [OF X])
  finally show ?thesis
    by (simp add: restore ifft2_fft2 [OF b])
qed

text \<open>
  Claim C5. For every beam (a rectangular array of any shape, of rank 2 or 3) the shift
  by the single displacement \<open>(0, 0)\<close> returns the beam, and the shift by a displacement
  followed by the shift of the result by the opposite displacement returns the beam; the
  results carry the leading position axis of length 1 and the mode axis.
\<close>

theorem shift_beam_fourier_round_trip:
  assumes "has_shape H W M (atleast_3d beam)"
  shows "shift_beam_fourier beam [(0, 0)] calib_ang = [atleast_3d beam]
     \<and> shift_beam_fourier
           (Arr3 (hd (shift_beam_fourier beam [(y_shift, x_shift)] calib_ang)))
           [(- y_shift, - x_shift)] calib_ang
         = [atleast_3d beam]"
  using shift_zero [OF assms] shift_back [OF assms] by simp

theorem shift_beam_fourier_round_trip_witness:
  "shift_beam_fourier (Arr2 [[1, 2], [3, 4]]) [(0, 0)] 1 = [[[[1], [2]], [[3], [4]]]]
   \<and> shift_beam_fourier
         (Arr3 (hd (shift_beam_fourier (Arr2 [[1, 2], [3, 4]]) [(1 / 2, 1 / 4)] 1)))
         [(- (1 / 2), - (1 / 4))] 1
       = [[[[1], [2]], [[3], [4]]]]"
  using shift_beam_fourier_round_trip [of 2 2 1 "Arr2 [[1, 2], [3, 4]]" 1 "1 / 2" "1 / 4"]
  by (simp add: has_shape_def atleast_3d_def)

section \<open>Properties of the CBED engine and the 4D-STEM simulator\<close>

lemma intensity_nonneg: "list_all (list_all (\<lambda>v. 0 \<le> v)) (intensity p)"
  by (auto simp add: intensity_def list_all_iff intro!: sum_list_nonneg)

text \<open>
  Claim C9. For every potential slice stack and every beam, every entry of the pattern
  returned by \<open>cbed\<close> is a real number greater than or equal to zero: it is a sum over
  the modes of squared moduli.
\<close>

theorem cbed_nonneg:
  "list_all (list_all (\<lambda>v. 0 \<le> v)) (cbed pot_slice beam slice_thickness voltage_kV calib_ang)"
  by (simp add: cbed_def Let_def intensity_nonneg)

lemma apply_shift_alone:
  "apply_shift beam_k qy qx pos i = apply_shift beam_k qy qx [pos ! i] 0"
  by (simp add: apply_shift_def)

lemma shift_nth:
  assumes "i < length pos"
  shows "shift_beam_fourier beam pos c ! i = hd (shift_beam_fourier beam [pos ! i] c)"
  using assms
  by (simp add: shift_beam_fourier_def Let_def apply_shift_alone [of _ _ _ pos i])

text \<open>
  Claim C2. For every potential, beam and position list, the output of \<open>stem_4D\<close> has
  one pattern per position, in the order of the positions, and the pattern at index \<open>i\<close>
  is \<open>cbed\<close> of the beam shifted to the position \<open>i\<close> alone.
\<close>

theorem stem_4D_positions:
  "length (stem_4D pot_slice beam positions slice_thickness voltage_kV calib_ang)
     = length positions
   \<and> (\<forall>i<length positions.
         stem_4D pot_slice beam positions slice_thickness voltage_kV calib_ang ! i
           = cbed (Arr3 pot_slice)
               (Arr3 (hd (shift_beam_fourier (Arr3 beam) [positions ! i] calib_ang)))
               slice_thickness voltage_kV calib_ang)"
  by (simp add: stem_4D_def Let_def shift_nth)

theorem stem_4D_positions_witness:
  "length (stem_4D [[[1]]] [[[1]]] [(0, 0), (1, 2)] 1 200 1) = 2
   \<and> stem_4D [[[1]]] [[[1]]] [(0, 0), (1, 2)] 1 200 1 ! 1
       = cbed (Arr3 [[[1]]]) (Arr3 (hd (shift_beam_fourier (Arr3 [[[1]]]) [(1, 2)] 1))) 1 200 1"
  using stem_4D_positions [of "[[[1]]]" "[[[1]]]" "[(0, 0), (1, 2)]" 1 200 1]
  by simp

lemma transmission_zero:
  "transmission_func (replicate H (replicate W 0)) V = replicate H (replicate W 1)"
  by (simp add: transmission_func_def Let_def)

lemma mul_broadcast_ones:
  assumes w: "has_shape H W M w"
  shows "mul_broadcast w (replicate H (replicate W 1)) = w"
proof -
  have k: "mat_shape H W (replicate H (replicate W (1::complex)))"
    by (simp add: mat_shape_def list_all_iff)
  show ?thesis
  proof (rule has_shape_eqI [OF mul_broadcast_shape [OF w k] w])
    fix i j m assume "i < H" "j < W" "m < M"
    then show "mul_broadcast w (replicate H (replicate W 1)) ! i ! j ! m = w ! i ! j ! m"
      by (simp add: mul_broadcast_nth [OF w k])
  qed
qed

text \<open>
  Handed the transmission function of the zero potential, which is 1 everywhere, in
  place of the potential, \<open>cbed\<close> returns the Fraunhofer pattern of the beam.
\<close>

lemma cbed_unit_transmission:
  assumes b: "has_shape H W M (atleast_3d beam)"
  shows "cbed (Arr2 (transmission_func (replicate H (replicate W 0)) V)) beam t V c
         = fraunhofer beam"
proof -
  let ?pot = "atleast_3d (Arr2 (replicate H (replicate W (1::complex))))"
  have pot: "?pot = replicate H (replicate W [1])"
    by (simp add: atleast_3d_def)
  have "fold (scan_fn ?pot K (dim2 ?pot)) [0..<dim2 ?pot] (atleast_3d beam) = atleast_3d beam"
    for K
  proof (cases "0 < H \<and> 0 < W")
    case False
    then have "dim2 (replicate H (replicate W [1::complex])) = 0"
      by (cases H; cases W) (auto simp add: dim2_def)
    then have "dim2 ?pot = 0" by (simp only: pot)
    then show ?thesis by simp
  next
    case True
    then have "dim2 (replicate H (replicate W [1::complex])) = 1"
      by (cases H; cases W) (auto simp add: dim2_def)
    then have d: "dim2 ?pot = 1" by (simp only: pot)
    have ts: "take_slice ?pot 0 = replicate H (replicate W 1)"
      by (simp add: pot take_slice_def)
    show ?thesis
      by (simp add: d scan_fn_def ts mul_broadcast_ones [OF b])
  qed
  then show ?thesis
    by (simp add: cbed_def fraunhofer_def Let_def transmission_zero)
qed

lemma upt_2: "[0..<2] = [0, 1]"
  by (simp add: eval_nat_numeral)

lemma fft2_zero_2x2: "fft2 [[[0], [0]], [[0], [0]]] = [[[0], [0]], [[0], [0]]]"
  by (simp add: fft2_def dim0_def dim1_def dim2_def dft2_sum_def upt_2)

lemma fft2_delta_2x2: "fft2 [[[1], [0]], [[0], [0]]] = [[[1], [1]], [[1], [1]]]"
  by (simp add: fft2_def dim0_def dim1_def dim2_def dft2_sum_def upt_2)

text \<open>
  Claim C1, which the code does not meet. For one slice that is zero everywhere and the
  single-mode beam that is 1 at the origin of a \<open>2 \<times> 2\<close> grid, \<open>cbed\<close> returns the
  pattern that is zero everywhere, while the Fraunhofer pattern of that beam is 1
  everywhere: the wave is multiplied by the slice itself, not by the transmission
  function of the slice.
\<close>

theorem cbed_zero_slice:
  "cbed (Arr2 [[0, 0], [0, 0]]) (Arr2 [[1, 0], [0, 0]]) 1 200 1 = [[0, 0], [0, 0]]
   \<and> fraunhofer (Arr2 [[1, 0], [0, 0]]) = [[1, 1], [1, 1]]"
  by (simp add: cbed_def fraunhofer_def atleast_3d_def dim2_def scan_fn_def take_slice_def
      mul_broadcast_def fft2_zero_2x2 fft2_delta_2x2 fftshift_def fftshift1_def intensity_def Let_def)

section \<open>Properties of the reconstruction loops\<close>

lemma get_optimizer_unknown:
  "name \<notin> {''adam'', ''adagrad'', ''rmsprop''} \<Longrightarrow>
   get_optimizer ext name = Inl (ValueError (''Unknown optimizer: '' @ name))"
  by (simp add: get_optimizer_def OPTIMIZERS_def)

lemma get_optimizer_known:
  "get_optimizer ext ''adam'' = Inr \<lparr>init = init_adam ext, update = adam_update ext\<rparr>"
  "get_optimizer ext ''adagrad'' = Inr \<lparr>init = init_adagrad ext, update = adagrad_update ext\<rparr>"
  "get_optimizer ext ''rmsprop'' = Inr \<lparr>init = init_rmsprop ext, update = rmsprop_update ext\<rparr>"
  by (simp_all add: get_optimizer_def OPTIMIZERS_def)

lemma get_optimizer_registered:
  "name \<in> {''adam'', ''adagrad'', ''rmsprop''} \<Longrightarrow> \<exists>opt. get_optimizer ext name = Inr opt"
  by (auto simp add: get_optimizer_def OPTIMIZERS_def)

lemma create_loss_function_known:
  "lt \<in> {''mae'', ''mse'', ''rmse''} \<Longrightarrow> \<exists>g. create_loss_function f ex lt = Inr g"
  by (auto simp add: create_loss_function_def loss_functions_def)

lemma create_loss_function_unknown:
  "lt \<notin> {''mae'', ''mse'', ''rmse''} \<Longrightarrow> create_loss_function f ex lt = Inl (KeyError lt)"
  by (auto simp add: create_loss_function_def loss_functions_def)

text \<open>
  The setup of every loop looks the loss type up, then the optimizer name; a name that is
  not registered ends the call there.
\<close>

lemma ptychography_unknown_optimizer:
  assumes "name \<notin> {''adam'', ''adagrad'', ''rmsprop''}"
  shows "single_slice_ptychography ext ex ip ib pos t v c se n lr lt name =
     (if lt \<in> {''mae'', ''mse'', ''rmse''}
      then Inl (ValueError (''Unknown optimizer: '' @ name)) else Inl (KeyError lt))"
proof (cases "lt \<in> {''mae'', ''mse'', ''rmse''}")
  case True
  then obtain g where "create_loss_function (\<lambda>(pot_slice, beam).
                forward_fn pos t v c pot_slice beam) ex lt = Inr g"
    using create_loss_function_known by blast
  then show ?thesis using True get_optimizer_unknown [OF assms, of ext]
    by (simp add: single_slice_ptychography_def)
next
  case False
  then show ?thesis
    by (simp add: single_slice_ptychography_def create_loss_function_unknown)
qed

lemma poscorrected_unknown_optimizer:
  assumes "name \<notin> {''adam'', ''adagrad'', ''rmsprop''}"
  shows "single_slice_poscorrected ext ex ip ib pos t v c se n lr lt name =
     (if lt \<in> {''mae'', ''mse'', ''rmse''}
      then Inl (ValueError (''Unknown optimizer: '' @ name)) else Inl (KeyError lt))"
proof (cases "lt \<in> {''mae'', ''mse'', ''rmse''}")
  case True
  then obtain g where "create_loss_function (\<lambda>(pot_slice, beam, pos_list).
                forward_fn_pos t v c pot_slice beam pos_list) ex lt = Inr g"
    using create_loss_function_known by blast
  then show ?thesis using True get_optimizer_unknown [OF assms, of ext]
    by (simp add: single_slice_poscorrected_def)
next
  case False
  then show ?thesis
    by (simp add: single_slice_poscorrected_def create_loss_function_unknown)
qed

lemma single_multi_modal_unknown_optimizer:
  assumes "name \<notin> {''adam'', ''adagrad'', ''rmsprop''}"
  shows "single_slice_multi_modal ext as_array ex ip ib pos t v c se n lr lt name =
     (if lt \<in> {''mae'', ''mse'', ''rmse''}
      then Inl (ValueError (''Unknown optimizer: '' @ name)) else Inl (KeyError lt))"
proof (cases "lt \<in> {''mae'', ''mse'', ''rmse''}")
  case True
  then obtain g where "create_loss_function (\<lambda>(pot_slice, beam, pos_list).
                forward_fn_pos t v c pot_slice beam pos_list) ex lt = Inr g"
    using create_loss_function_known by blast
  then show ?thesis using True get_optimizer_unknown [OF assms, of ext]
    by (simp add: single_slice_multi_modal_def)
next
  case False
  then show ?thesis
    by (simp add: single_slice_multi_modal_def create_loss_function_unknown)
qed

lemma multi_multi_modal_unknown_optimizer:
  assumes "name \<notin> {''adam'', ''adagrad'', ''rmsprop''}"
  shows "multi_slice_multi_modal ext ex ip ib pos t v c se n lr plr lt name =
     (if lt \<in> {''mae'', ''mse'', ''rmse''}
      then Inl (ValueError (''Unknown optimizer: '' @ name)) else Inl (KeyError lt))"
proof (cases "lt \<in> {''mae'', ''mse'', ''rmse''}")
  case True
  then obtain g where "create_loss_function (\<lambda>(pot_slice, beam, pos_list).
                forward_fn_pos t v c pot_slice beam pos_list) ex lt = Inr g"
    using create_loss_function_known by blast
  then show ?thesis using True get_optimizer_unknown [OF assms, of ext]
    by (simp add: multi_slice_multi_modal_def)
next
  case False
  then show ?thesis
    by (simp add: multi_slice_multi_modal_def create_loss_function_unknown)
qed

text \<open>
  Claim C4. For an optimizer name outside \<open>{adam, adagrad, rmsprop}\<close>, \<open>get_optimizer\<close>
  raises \<^verbatim>\<open>ValueError\<close>, and a call of each of the four reconstruction loops ends in a
  configuration error of the setup: that \<^verbatim>\<open>ValueError\<close>, or the \<^verbatim>\<open>KeyError\<close> of an
  unknown loss type, which is looked up first. The error does not depend on the arrays,
  the learning rates, the iteration count or \<open>save_every\<close>: nothing else has been
  evaluated. For each of the three registered names \<open>get_optimizer\<close> returns the
  optimizer registered under it.
\<close>

theorem unknown_optimizer_fails_at_setup:
  "(optimizer_name \<notin> {''adam'', ''adagrad'', ''rmsprop''} \<longrightarrow>
      get_optimizer ext optimizer_name
        = Inl (ValueError (''Unknown optimizer: '' @ optimizer_name))
    \<and> single_slice_ptychography ext ex ipot ibeam pos t v c se n lr lt optimizer_name
        = (if lt \<in> {''mae'', ''mse'', ''rmse''}
           then Inl (ValueError (''Unknown optimizer: '' @ optimizer_name))
           else Inl (KeyError lt))
    \<and> single_slice_poscorrected ext ex ipot ibeam pos' t v c se n lr' lt optimizer_name
        = (if lt \<in> {''mae'', ''mse'', ''rmse''}
           then Inl (ValueError (''Unknown optimizer: '' @ optimizer_name))
           else Inl (KeyError lt))
    \<and> single_slice_multi_modal ext as_array ex pot probe pos' t v c se n lr' lt optimizer_name
        = (if lt \<in> {''mae'', ''mse'', ''rmse''}
           then Inl (ValueError (''Unknown optimizer: '' @ optimizer_name))
           else Inl (KeyError lt))
    \<and> multi_slice_multi_modal ext ex pot beam pos' t v c se n lr plr lt optimizer_name
        = (if lt \<in> {''mae'', ''mse'', ''rmse''}
           then Inl (ValueError (''Unknown optimizer: '' @ optimizer_name))
           else Inl (KeyError lt)))
   \<and> get_optimizer ext ''adam'' = Inr \<lparr>init = init_adam ext, update = adam_update ext\<rparr>
   \<and> get_optimizer ext ''adagrad''
        = Inr \<lparr>init = init_adagrad ext, update = adagrad_update ext\<rparr>
   \<and> get_optimizer ext ''rmsprop''
        = Inr \<lparr>init = init_rmsprop ext, update = rmsprop_update ext\<rparr>"
  using get_optimizer_unknown [of optimizer_name ext]
    ptychography_unknown_optimizer [of optimizer_name ext ex ipot ibeam pos t v c se n lr lt]
    poscorrected_unknown_optimizer [of optimizer_name ext ex ipot ibeam pos' t v c se n lr' lt]
    single_multi_modal_unknown_optimizer
      [of optimizer_name ext as_array ex pot probe pos' t v c se n lr' lt]
    multi_multi_modal_unknown_optimizer
      [of optimizer_name ext ex pot beam pos' t v c se n lr plr lt]
    get_optimizer_known [of ext]
  by blast

theorem unknown_optimizer_fails_at_setup_witness:
  "get_optimizer toy_externals ''sgd'' = Inl (ValueError ''Unknown optimizer: sgd'')
   \<and> single_slice_ptychography toy_externals []
        \<lparr>data_array = [[5]], calib_y = 2, calib_x = 3, real_space = True\<rparr>
        \<lparr>data_array = [[7]], calib_y = 4, calib_x = 6, real_space = False\<rparr>
        [] 1 200 1 0 1000 (1 / 1000) ''mse'' ''sgd''
      = Inl (ValueError ''Unknown optimizer: sgd'')
   \<and> single_slice_poscorrected toy_externals []
        \<lparr>data_array = [[5]], calib_y = 2, calib_x = 3, real_space = True\<rparr>
        \<lparr>data_array = [[7]], calib_y = 4, calib_x = 6, real_space = False\<rparr>
        [] 1 200 1 0 1000 (Scalar (1 / 100)) ''mse'' ''sgd''
      = Inl (ValueError ''Unknown optimizer: sgd'')
   \<and> single_slice_multi_modal toy_externals Inr [] [[5]] [[7]]
        [] 1 200 1 0 1000 (Scalar (1 / 100)) ''mse'' ''sgd''
      = Inl (ValueError ''Unknown optimizer: sgd'')
   \<and> multi_slice_multi_modal toy_externals [] [[5]] [[7]]
        [] 1 200 1 0 1000 (1 / 1000) (1 / 100) ''mse'' ''sgd''
      = Inl (ValueError ''Unknown optimizer: sgd'')"
  using unknown_optimizer_fails_at_setup [of "''sgd''" toy_externals "[]"
      "\<lparr>data_array = [[5]], calib_y = 2, calib_x = 3, real_space = True\<rparr>"
      "\<lparr>data_array = [[7]], calib_y = 4, calib_x = 6, real_space = False\<rparr>"
      "[]" 1 200 1 0 1000 "1 / 1000" "''mse''" "[]" "Scalar (1 / 100)"
      Inr "[[5]]" "[[7]]" "[[7]]" "1 / 100"]
  by simp

lemma poscorrected_scalar_any:
  "single_slice_poscorrected ext ex ip ib pos t v c se n (Scalar r) lt name
     = Inl (if lt \<in> {''mae'', ''mse'', ''rmse''}
            then (if name \<in> {''adam'', ''adagrad'', ''rmsprop''}
                  then TypeError ''len() of unsized object''
                  else ValueError (''Unknown optimizer: '' @ name))
            else KeyError lt)"
proof (cases "name \<in> {''adam'', ''adagrad'', ''rmsprop''}")
  case False
  then show ?thesis
    using poscorrected_unknown_optimizer [of name ext ex ip ib pos t v c se n "Scalar r" lt]
    by simp
next
  case True
  then obtain opt where opt: "get_optimizer ext name = Inr opt"
    using get_optimizer_registered by blast
  show ?thesis
  proof (cases "lt \<in> {''mae'', ''mse'', ''rmse''}")
    case False
    then show ?thesis
      by (simp add: single_slice_poscorrected_def create_loss_function_unknown)
  next
    case lt: True
    then obtain g where "create_loss_function (\<lambda>(pot_slice, beam, pos_list).
                forward_fn_pos t v c pot_slice beam pos_list) ex lt = Inr g"
      using create_loss_function_known by blast
    then show ?thesis
      using True lt opt
      by (simp add: single_slice_poscorrected_def normalize_learning_rate_def len_farray_def)
  qed
qed

text \<open>
  Claim C8, which the code does not meet. With the default learning rate \<open>0.01\<close>, a
  scalar, and the default loss and optimizer names, \<open>single_slice_poscorrected\<close> raises
  \<^verbatim>\<open>TypeError\<close> at \<^verbatim>\<open>len(learning_rate)\<close>, whatever the other arguments are: the
  scalar is never applied to either parameter group and no iteration runs. With any
  scalar learning rate the call ends in an error: that \<^verbatim>\<open>TypeError\<close>, or the error of
  an unknown loss type or optimizer name raised before it.
\<close>

theorem single_slice_poscorrected_scalar_learning_rate:
  "single_slice_poscorrected ext ex ip ib pos t v c se n (Scalar (1 / 100)) ''mse'' ''adam''
     = Inl (TypeError ''len() of unsized object'')
   \<and> single_slice_poscorrected ext ex ip ib pos t v c se n (Scalar r) lt name
     = Inl (if lt \<in> {''mae'', ''mse'', ''rmse''}
            then (if name \<in> {''adam'', ''adagrad'', ''rmsprop''}
                  then TypeError ''len() of unsized object''
                  else ValueError (''Unknown optimizer: '' @ name))
            else KeyError lt)"
  using poscorrected_scalar_any [of ext ex ip ib pos t v c se n "1 / 100" "''mse''" "''adam''"]
    poscorrected_scalar_any [of ext ex ip ib pos t v c se n r lt name]
  by simp

text \<open>
  The allocation of a snapshot buffer: the true division raises for \<open>save_every = 0\<close>,
  and otherwise \<^verbatim>\<open>jnp.zeros\<close> raises on the float that \<^verbatim>\<open>jnp.floor\<close> returns. Whatever
  follows the allocation is not reached.
\<close>

lemma floor_quotient_eq:
  "floor_quotient a b =
     (if b = 0 then Inl (ZeroDivisionError ''division by zero'')
      else Inr (FloatDim (of_int \<lfloor>real a / real b\<rfloor>)))"
  by (simp add: floor_quotient_def true_divide_def jnp_floor_def)

lemma jnp_zeros_float:
  "jnp_zeros d0 d1 (FloatDim x)
     = Inl (TypeError ''Shapes must be 1D sequences of concrete values of integer type'')"
  by (cases d0; cases d1) (simp_all add: jnp_zeros_def)

lemma allocation_raises:
  "(case floor_quotient n se of
      Inl err \<Rightarrow> Inl err
    | Inr slots \<Rightarrow> (case jnp_zeros d0 d1 slots of Inl err \<Rightarrow> Inl err | Inr buffer \<Rightarrow> k buffer))
   = Inl (if se = 0 then ZeroDivisionError ''division by zero''
          else TypeError ''Shapes must be 1D sequences of concrete values of integer type'')"
  by (simp add: floor_quotient_eq jnp_zeros_float)

lemma ptychography_always_raises:
  "single_slice_ptychography ext ex ipot ibeam pos t v c se n lr lt name
     = Inl (if lt \<in> {''mae'', ''mse'', ''rmse''}
            then (if name \<in> {''adam'', ''adagrad'', ''rmsprop''}
                  then (if se = 0 then ZeroDivisionError ''division by zero''
                        else TypeError
                          ''Shapes must be 1D sequences of concrete values of integer type'')
                  else ValueError (''Unknown optimizer: '' @ name))
            else KeyError lt)"
proof (cases "name \<in> {''adam'', ''adagrad'', ''rmsprop''}")
  case False
  then show ?thesis
    using ptychography_unknown_optimizer [of name ext ex ipot ibeam pos t v c se n lr lt]
    by simp
next
  case True
  then obtain opt where opt: "get_optimizer ext name = Inr opt"
    using get_optimizer_registered by blast
  show ?thesis
  proof (cases "lt \<in> {''mae'', ''mse'', ''rmse''}")
    case False
    then show ?thesis
      by (simp add: single_slice_ptychography_def create_loss_function_unknown)
  next
    case lt: True
    then obtain g where "create_loss_function (\<lambda>(pot_slice, beam).
                forward_fn pos t v c pot_slice beam) ex lt = Inr g"
      using create_loss_function_known by blast
    then show ?thesis
      using True lt opt
      by (simp add: single_slice_ptychography_def Let_def allocation_raises)
  qed
qed

text \<open>
  Claim C10, which the code does not meet. \<open>single_slice_ptychography\<close> returns no
  containers: for every input the call ends in an exception. With a registered loss type
  and optimizer name the setup reads the \<open>real_space\<close> flag of the beam and then raises
  at the allocation of the first snapshot buffer, \<^verbatim>\<open>ZeroDivisionError\<close> for
  \<open>save_every = 0\<close> and \<^verbatim>\<open>TypeError\<close> otherwise, before the first iteration; no
  \<open>final_potential\<close> and no \<open>final_beam\<close> is built.
\<close>

theorem single_slice_ptychography_never_returns:
  "single_slice_ptychography ext experimental_4dstem initial_potential initial_beam pos_list
       slice_thickness voltage_kV calib_ang save_every num_iterations learning_rate
       loss_type optimizer_name
     = Inl (if loss_type \<in> {''mae'', ''mse'', ''rmse''}
            then (if optimizer_name \<in> {''adam'', ''adagrad'', ''rmsprop''}
                  then (if save_every = 0 then ZeroDivisionError ''division by zero''
                        else TypeError
                          ''Shapes must be 1D sequences of concrete values of integer type'')
                  else ValueError (''Unknown optimizer: '' @ optimizer_name))
            else KeyError loss_type)"
  by (rule ptychography_always_raises)

text \<open>
  An iteration that does not raise hands on the buffers it was given: the values of the
  two \<^verbatim>\<open>.at[...].set(...)\<close> expressions go nowhere.
\<close>

lemma iteration_keeps_buffers:
  assumes "iteration jax loss_func optimizer lr se ii (p, b, ps, bs, ip, ib)
           = Inr (p', b', ps', bs', ip', ib')"
  shows "ip' = ip \<and> ib' = ib"
  using assms
  by (auto simp add: iteration_def Let_def split: prod.splits if_splits sum.splits)

text \<open>
  Claim C3, which the code does not meet. Two iterations with \<open>save_every = 1\<close> on a
  \<open>1 \<times> 1\<close> potential 5 and beam 7: the call raises \<^verbatim>\<open>TypeError\<close> when it allocates the
  first snapshot buffer, whose last dimension \<^verbatim>\<open>jnp.floor(2 / 1)\<close> is a float, so no
  snapshot is recorded and no buffer is returned. The loop body, run on buffers of the
  intended shape, raises as well at the snapshot iteration 0: the slot index
  \<^verbatim>\<open>jnp.floor(0 / 1)\<close> is a float.
\<close>

theorem snapshot_history_never_returned:
  "single_slice_ptychography toy_externals []
        \<lparr>data_array = [[5]], calib_y = 2, calib_x = 3, real_space = True\<rparr>
        \<lparr>data_array = [[7]], calib_y = 4, calib_x = 6, real_space = True\<rparr>
        [] 1 200 1 1 2 (1 / 1000) ''mse'' ''adam''
      = Inl (TypeError ''Shapes must be 1D sequences of concrete values of integer type'')
   \<and> iteration toy_externals loss_func
        \<lparr>init = init_adam toy_externals, update = adam_update toy_externals\<rparr>
        (1 / 1000) 1 0 ([[5]], [[7]], (), (), zeros 1 1 2, zeros 1 1 2)
      = Inl (TypeError ''Indexer must have integer or boolean type'')"
  using ptychography_always_raises [of toy_externals "[]"
      "\<lparr>data_array = [[5]], calib_y = 2, calib_x = 3, real_space = True\<rparr>"
      "\<lparr>data_array = [[7]], calib_y = 4, calib_x = 6, real_space = True\<rparr>"
      "[]" 1 200 1 1 2 "1 / 1000" "''mse''" "''adam''"]
  by (simp add: iteration_def update_step_def toy_externals_def floor_quotient_eq at_set_def)

end
